theory Spec2Isabelle
  imports Main "HOL-Library.Sublist"
begin

section \<open>Text, timestamps and JSON values\<close>

text \<open>
  The program is \<^verbatim>\<open>scripts/init_harness.py\<close>. Its strings are modelled as HOL strings, read
  as the UTF-8 bytes of the text: the non-ASCII symbols of the source's literals are the
  byte sequences below, and what is written to a file is the string itself.
\<close>

definition check_mark :: string where
  "check_mark = [CHR 0xE2, CHR 0x9C, CHR 0x85]"

definition folder_mark :: string where
  "folder_mark = [CHR 0xF0, CHR 0x9F, CHR 0x93, CHR 0x81]"

definition wrench_mark :: string where
  "wrench_mark = [CHR 0xF0, CHR 0x9F, CHR 0x94, CHR 0xA7]"

definition rocket_mark :: string where
  "rocket_mark = [CHR 0xF0, CHR 0x9F, CHR 0x9A, CHR 0x80]"

definition package_mark :: string where
  "package_mark = [CHR 0xF0, CHR 0x9F, CHR 0x93, CHR 0xA6]"

definition snake_mark :: string where
  "snake_mark = [CHR 0xF0, CHR 0x9F, CHR 0x90, CHR 0x8D]"

definition crab_mark :: string where
  "crab_mark = [CHR 0xF0, CHR 0x9F, CHR 0xA6, CHR 0x80]"

definition gopher_mark :: string where
  "gopher_mark = [CHR 0xF0, CHR 0x9F, CHR 0x90, CHR 0xB9]"

definition clipboard_mark :: string where
  "clipboard_mark = [CHR 0xF0, CHR 0x9F, CHR 0x93, CHR 0x8B]"

definition unlines :: "string list \<Rightarrow> string" where
  "unlines ls = concat (map (\<lambda>l. l @ [CHR 0x0A]) ls)"

subsection \<open>Decimal and hexadecimal rendering\<close>

definition digit_char :: "nat \<Rightarrow> char" where
  "digit_char d = ''0123456789'' ! (d mod 10)"

function dec :: "nat \<Rightarrow> string" where
  "dec n = (if n < 10 then [digit_char n] else dec (n div 10) @ [digit_char (n mod 10)])"
  by pat_completeness auto
termination
  by (relation "measure id") auto

text \<open>\<^verbatim>\<open>%0kd\<close>: the decimal digits, filled with zeros on the left up to width \<open>k\<close>.\<close>

definition zfill :: "nat \<Rightarrow> nat \<Rightarrow> string" where
  "zfill k n = replicate (k - length (dec n)) (CHR ''0'') @ dec n"

definition int_repr :: "int \<Rightarrow> string" where
  "int_repr i = (if i < 0 then ''-'' @ dec (nat (- i)) else dec (nat i))"

definition hex_char :: "nat \<Rightarrow> char" where
  "hex_char d = ''0123456789abcdef'' ! (d mod 16)"

subsection \<open>Clock readings\<close>

text \<open>
  A reading of \<^verbatim>\<open>datetime.now()\<close>: a naive local date and time. \<^verbatim>\<open>isoformat()\<close>
  prints the microseconds only when they are not zero.
\<close>

record datetime =
  year :: nat
  month :: nat
  day :: nat
  hour :: nat
  minute :: nat
  second :: nat
  microsecond :: nat

definition isoformat :: "datetime \<Rightarrow> string" where
  "isoformat t =
     zfill 4 (year t) @ ''-'' @ zfill 2 (month t) @ ''-'' @ zfill 2 (day t) @ ''T'' @
     zfill 2 (hour t) @ '':'' @ zfill 2 (minute t) @ '':'' @ zfill 2 (second t) @
     (if microsecond t \<noteq> 0 then ''.'' @ zfill 6 (microsecond t) else [])"

text \<open>\<^verbatim>\<open>strftime("%Y-%m-%d %H:%M")\<close>, for the four-digit years a clock reading has.\<close>

definition strftime_minute :: "datetime \<Rightarrow> string" where
  "strftime_minute t =
     zfill 4 (year t) @ ''-'' @ zfill 2 (month t) @ ''-'' @ zfill 2 (day t) @ '' '' @
     zfill 2 (hour t) @ '':'' @ zfill 2 (minute t)"

subsection \<open>JSON values and \<^verbatim>\<open>json.dump(..., indent=2, ensure_ascii=False)\<close>\<close>

text \<open>A dictionary keeps its insertion order, so an object is an association list.\<close>

datatype json =
    JStr string
  | JInt int
  | JBool bool
  | JList "json list"
  | JObj "(string \<times> json) list"

text \<open>
  The string encoder with \<^verbatim>\<open>ensure_ascii=False\<close>: the backslash, the double quote and
  the control characters below 0x20 are escaped, every other character is written as it is.
\<close>

definition escape_char :: "char \<Rightarrow> string" where
  "escape_char c =
     (if c = CHR 0x5C then [CHR 0x5C, CHR 0x5C]
      else if c = CHR 0x22 then [CHR 0x5C, CHR 0x22]
      else if c = CHR 0x08 then [CHR 0x5C, CHR ''b'']
      else if c = CHR 0x0C then [CHR 0x5C, CHR ''f'']
      else if c = CHR 0x0A then [CHR 0x5C, CHR ''n'']
      else if c = CHR 0x0D then [CHR 0x5C, CHR ''r'']
      else if c = CHR 0x09 then [CHR 0x5C, CHR ''t'']
      else if (of_char c :: nat) < 0x20
        then [CHR 0x5C, CHR ''u'', CHR ''0'', CHR ''0'',
              hex_char (of_char c div 16), hex_char (of_char c mod 16)]
      else [c])"

definition encode_basestring :: "string \<Rightarrow> string" where
  "encode_basestring s = [CHR 0x22] @ concat (map escape_char s) @ [CHR 0x22]"

definition newline_indent :: "nat \<Rightarrow> string" where
  "newline_indent level = CHR 0x0A # replicate (2 * level) (CHR '' '')"

fun intersperse :: "string \<Rightarrow> string list \<Rightarrow> string" where
  "intersperse sep [] = []"
| "intersperse sep [x] = x"
| "intersperse sep (x # y # ys) = x @ sep @ intersperse sep (y # ys)"

fun iterencode :: "nat \<Rightarrow> json \<Rightarrow> string" where
  "iterencode level (JStr s) = encode_basestring s"
| "iterencode level (JInt i) = int_repr i"
| "iterencode level (JBool b) = (if b then ''true'' else ''false'')"
| "iterencode level (JList xs) =
     (if xs = [] then ''[]''
      else ''['' @ newline_indent (Suc level) @
           intersperse ('','' @ newline_indent (Suc level)) (map (iterencode (Suc level)) xs) @
           newline_indent level @ '']'')"
| "iterencode level (JObj kvs) =
     (if kvs = [] then ''{}''
      else ''{'' @ newline_indent (Suc level) @
           intersperse ('','' @ newline_indent (Suc level))
             (map (\<lambda>kv. encode_basestring (fst kv) @ '': '' @ iterencode (Suc level) (snd kv)) kvs) @
           newline_indent level @ ''}'')"

definition json_dump :: "json \<Rightarrow> string" where
  "json_dump j = iterencode 0 j"

text \<open>Reading a key of an object.\<close>

fun jget :: "string \<Rightarrow> json \<Rightarrow> json option" where
  "jget k (JObj kvs) = map_of kvs k"
| "jget k _ = None"

section \<open>The feature list\<close>

text \<open>
  The dictionary \<^verbatim>\<open>create_feature_list\<close> builds. The clock is read twice, in the order in
  which the dictionary display is evaluated: \<open>created\<close> first, \<open>last_updated\<close> second.
\<close>

definition feature_list :: "string \<Rightarrow> string \<Rightarrow> datetime \<Rightarrow> datetime \<Rightarrow> json" where
  "feature_list project_name description t_created t_updated =
     JObj [
       (''project'', JObj [
          (''name'', JStr project_name),
          (''description'', JStr description),
          (''created'', JStr (isoformat t_created))]),
       (''features'', JList [
          JObj [
            (''id'', JInt 1),
            (''category'', JStr ''setup''),
            (''description'', JStr ''Project initialization and basic structure''),
            (''steps'', JList [
               JStr ''Create project directory structure'',
               JStr ''Initialize package management'',
               JStr ''Verify basic setup works'']),
            (''priority'', JStr ''high''),
            (''passes'', JBool False)],
          JObj [
            (''id'', JInt 2),
            (''category'', JStr ''core''),
            (''description'', JStr ''[TODO: Add core feature description]''),
            (''steps'', JList [
               JStr ''[TODO: Add verification step 1]'',
               JStr ''[TODO: Add verification step 2]'']),
            (''priority'', JStr ''high''),
            (''passes'', JBool False)]]),
       (''metadata'', JObj [
          (''total_features'', JInt 2),
          (''completed_features'', JInt 0),
          (''last_updated'', JStr (isoformat t_updated))])]"

section \<open>The filesystem\<close>

text \<open>
  A location is the list of names from the root; the filesystem maps the locations that
  exist to a directory or to a regular file with its content and permission bits. There
  are no symbolic links, and a directory carries no permission bits of its own: \<open>denied\<close>
  is the set of locations at which the operating system refuses the process, so that
  creating an entry in such a directory, or writing or changing the mode of such a file,
  raises \<^verbatim>\<open>PermissionError\<close>. A write that is let through is complete (no full disk).
\<close>

type_synonym path = "string list"

datatype node = Dir | File (content: string) (mode: nat)

type_synonym filesystem = "path \<Rightarrow> node option"

datatype os_error =
    FileNotFoundError
  | NotADirectoryError
  | FileExistsError
  | IsADirectoryError
  | PermissionError

text \<open>
  The world a run acts on: the filesystem and the refusals, the working directory, the mode
  a newly created file gets (\<^verbatim>\<open>0o666\<close> without the umask's bits), the clock as the sequence of
  its readings with the number of readings taken so far, and what was printed.
\<close>

record world =
  fs :: filesystem
  denied :: "path set"
  cwd :: path
  create_mode :: nat
  now :: "nat \<Rightarrow> datetime"
  ticks :: nat
  stdout :: string

text \<open>A statement ends normally (\<open>None\<close>) or raises, and leaves a world in both cases.\<close>

type_synonym outcome = "os_error option \<times> world"

definition and_then :: "outcome \<Rightarrow> (world \<Rightarrow> outcome) \<Rightarrow> outcome" where
  "and_then r f = (case r of (None, w) \<Rightarrow> f w | (Some e, w) \<Rightarrow> (Some e, w))"

definition print :: "string \<Rightarrow> world \<Rightarrow> world" where
  "print s w = w\<lparr>stdout := stdout w @ s @ [CHR 0x0A]\<rparr>"

definition datetime_now :: "world \<Rightarrow> datetime \<times> world" where
  "datetime_now w = (now w (ticks w), w\<lparr>ticks := Suc (ticks w)\<rparr>)"

subsection \<open>Paths as \<^verbatim>\<open>pathlib\<close> has them\<close>

fun split_on :: "char \<Rightarrow> string \<Rightarrow> string list" where
  "split_on d [] = [[]]"
| "split_on d (c # cs) =
     (if c = d then [] # split_on d cs
      else (case split_on d cs of [] \<Rightarrow> [[c]] | x # xs \<Rightarrow> (c # x) # xs))"

text \<open>
  The parts of a path string: empty parts and \<^verbatim>\<open>.\<close> are dropped, \<^verbatim>\<open>..\<close> is kept. A
  path that starts with exactly two slashes, which \<^verbatim>\<open>pathlib\<close> keeps as a root of its own and
  Linux reads as the root, is not told apart from the path with one.
\<close>

definition parts :: "string \<Rightarrow> string list" where
  "parts s = filter (\<lambda>c. c \<noteq> [] \<and> c \<noteq> ''.'') (split_on (CHR ''/'') s)"

definition is_absolute :: "string \<Rightarrow> bool" where
  "is_absolute s = (case s of [] \<Rightarrow> False | c # _ \<Rightarrow> c = CHR ''/'')"

text \<open>
  \<^verbatim>\<open>base / segment\<close> for an absolute \<open>base\<close>, given by its parts: an absolute segment
  replaces the base.
\<close>

definition joinpath :: "path \<Rightarrow> string \<Rightarrow> path" where
  "joinpath base seg = (if is_absolute seg then parts seg else base @ parts seg)"

definition path_str :: "path \<Rightarrow> string" where
  "path_str p = (if p = [] then ''/'' else concat (map (\<lambda>c. CHR ''/'' # c) p))"

definition path_name :: "path \<Rightarrow> string" where
  "path_name p = (if p = [] then [] else last p)"

text \<open>One step of a walk: \<^verbatim>\<open>..\<close> goes to the parent (the root is its own parent).\<close>

definition step :: "path \<Rightarrow> string \<Rightarrow> path" where
  "step cur c = (if c = ''..'' then butlast cur else cur @ [c])"

text \<open>
  \<^verbatim>\<open>Path(s).resolve()\<close>: the path is made absolute from the working directory and its
  \<^verbatim>\<open>..\<close> parts are collapsed; without symbolic links this looks at no file.
\<close>

definition resolve :: "world \<Rightarrow> string \<Rightarrow> path" where
  "resolve w s = foldl step (if is_absolute s then [] else cwd w) (parts s)"

subsection \<open>System calls\<close>

text \<open>Walking down from a directory: every directory passed through must exist.\<close>

fun walk :: "filesystem \<Rightarrow> path \<Rightarrow> string list \<Rightarrow> os_error + path" where
  "walk f cur [] =
     (case f cur of
        None \<Rightarrow> Inl FileNotFoundError
      | Some (File _ _) \<Rightarrow> Inl NotADirectoryError
      | Some Dir \<Rightarrow> Inr cur)"
| "walk f cur (c # cs) =
     (case f cur of
        None \<Rightarrow> Inl FileNotFoundError
      | Some (File _ _) \<Rightarrow> Inl NotADirectoryError
      | Some Dir \<Rightarrow> walk f (step cur c) cs)"

text \<open>
  The location a path names: its parent directory is walked to, the last part is not
  looked up.
\<close>

definition namei :: "filesystem \<Rightarrow> path \<Rightarrow> os_error + path" where
  "namei f p =
     (if p = [] then Inr []
      else (case walk f [] (butlast p) of
              Inl e \<Rightarrow> Inl e
            | Inr d \<Rightarrow> Inr (step d (last p))))"

definition stat :: "filesystem \<Rightarrow> path \<Rightarrow> os_error + node" where
  "stat f p =
     (case namei f p of
        Inl e \<Rightarrow> Inl e
      | Inr q \<Rightarrow> (case f q of None \<Rightarrow> Inl FileNotFoundError | Some n \<Rightarrow> Inr n))"

text \<open>\<^verbatim>\<open>Path.exists()\<close> and \<^verbatim>\<open>Path.is_dir()\<close> answer False where the path cannot be reached.\<close>

definition path_exists :: "filesystem \<Rightarrow> path \<Rightarrow> bool" where
  "path_exists f p = (case stat f p of Inl _ \<Rightarrow> False | Inr _ \<Rightarrow> True)"

definition is_dir :: "filesystem \<Rightarrow> path \<Rightarrow> bool" where
  "is_dir f p = (case stat f p of Inr Dir \<Rightarrow> True | _ \<Rightarrow> False)"

definition names_dir :: "path \<Rightarrow> bool" where
  "names_dir p = (p = [] \<or> last p = ''..'')"

definition os_mkdir :: "path \<Rightarrow> world \<Rightarrow> outcome" where
  "os_mkdir p w =
     (case namei (fs w) p of
        Inl e \<Rightarrow> (Some e, w)
      | Inr q \<Rightarrow>
          if names_dir p \<or> fs w q \<noteq> None then (Some FileExistsError, w)
          else if butlast q \<in> denied w then (Some PermissionError, w)
          else (None, w\<lparr>fs := (fs w)(q \<mapsto> Dir)\<rparr>))"

text \<open>
  \<^verbatim>\<open>with open(path, "w", encoding="utf-8") as f: f.write(text)\<close>: an existing file is
  truncated and keeps its mode, a missing one is created.
\<close>

definition write_text :: "path \<Rightarrow> string \<Rightarrow> world \<Rightarrow> outcome" where
  "write_text p text w =
     (case namei (fs w) p of
        Inl e \<Rightarrow> (Some e, w)
      | Inr q \<Rightarrow>
          if names_dir p then (Some IsADirectoryError, w)
          else (case fs w q of
                  Some Dir \<Rightarrow> (Some IsADirectoryError, w)
                | Some (File _ m) \<Rightarrow>
                    if q \<in> denied w then (Some PermissionError, w)
                    else (None, w\<lparr>fs := (fs w)(q \<mapsto> File text m)\<rparr>)
                | None \<Rightarrow>
                    if butlast q \<in> denied w then (Some PermissionError, w)
                    else (None, w\<lparr>fs := (fs w)(q \<mapsto> File text (create_mode w))\<rparr>)))"

definition os_chmod :: "path \<Rightarrow> nat \<Rightarrow> world \<Rightarrow> outcome" where
  "os_chmod p m w =
     (case namei (fs w) p of
        Inl e \<Rightarrow> (Some e, w)
      | Inr q \<Rightarrow>
          (case fs w q of
             None \<Rightarrow> (Some FileNotFoundError, w)
           | Some n \<Rightarrow>
               if q \<in> denied w then (Some PermissionError, w)
               else (case n of
                       Dir \<Rightarrow> (None, w)
                     | File text _ \<Rightarrow> (None, w\<lparr>fs := (fs w)(q \<mapsto> File text m)\<rparr>))))"

subsection \<open>\<^verbatim>\<open>Path.mkdir\<close>\<close>

text \<open>
  \<^verbatim>\<open>os.mkdir\<close> is tried first. \<^verbatim>\<open>FileNotFoundError\<close> is raised again unless
  \<^verbatim>\<open>parents\<close> is set and the path has a parent other than itself; then the parent is made
  (with \<^verbatim>\<open>parents=True, exist_ok=True\<close>) and the path is made without \<^verbatim>\<open>parents\<close>.
  Any other error is raised again unless \<^verbatim>\<open>exist_ok\<close> is set and the path is a directory.
\<close>

definition mkdir_other_error :: "bool \<Rightarrow> path \<Rightarrow> os_error \<Rightarrow> world \<Rightarrow> outcome" where
  "mkdir_other_error exist_ok p e w =
     (if \<not> exist_ok \<or> \<not> is_dir (fs w) p then (Some e, w) else (None, w))"

definition mkdir_flat :: "bool \<Rightarrow> path \<Rightarrow> world \<Rightarrow> outcome" where
  "mkdir_flat exist_ok p w =
     (case os_mkdir p w of
        (None, w') \<Rightarrow> (None, w')
      | (Some e, w') \<Rightarrow>
          if e = FileNotFoundError then (Some e, w')
          else mkdir_other_error exist_ok p e w')"

function mkdir_parents :: "bool \<Rightarrow> path \<Rightarrow> world \<Rightarrow> outcome" where
  "mkdir_parents exist_ok p w =
     (case os_mkdir p w of
        (None, w') \<Rightarrow> (None, w')
      | (Some e, w') \<Rightarrow>
          if e = FileNotFoundError then
            (if p = [] then (Some e, w')
             else and_then (mkdir_parents True (butlast p) w') (mkdir_flat exist_ok p))
          else mkdir_other_error exist_ok p e w')"
  by pat_completeness auto
termination
  by (relation "measure (\<lambda>(e, p, w). length p)") auto

declare mkdir_parents.simps [simp del]

section \<open>The program\<close>

subsection \<open>\<^verbatim>\<open>create_feature_list\<close>\<close>

definition create_feature_list :: "string \<Rightarrow> path \<Rightarrow> string \<Rightarrow> world \<Rightarrow> outcome" where
  "create_feature_list project_name harness_dir description w =
     (let (t_created, w1) = datetime_now w;
          (t_updated, w2) = datetime_now w1;
          output_path = joinpath harness_dir ''feature_list.json''
      in and_then
           (write_text output_path
              (json_dump (feature_list project_name description t_created t_updated)) w2)
           (\<lambda>w3. (None, print (check_mark @ '' Created '' @ path_str output_path) w3)))"

subsection \<open>\<^verbatim>\<open>create_progress_file\<close>\<close>

text \<open>
  The text of the f-string. The clock is read twice, and each reading is printed to the
  minute.
\<close>

definition progress_notes :: "string list" where
  "progress_notes =
     [''## Notes for Future Sessions'',
      [],
      ''When starting a new session:'',
      ''1. Read this file to understand recent progress'',
      ''2. Check git log for commit history'',
      ''3. Review feature_list.json for next task'',
      ''4. Run ./init.sh to start development environment'',
      ''5. Pick ONE feature and implement it'',
      ''6. Update this file before ending session'',
      []]"

definition progress_lines :: "string \<Rightarrow> string \<Rightarrow> datetime \<Rightarrow> datetime \<Rightarrow> string list" where
  "progress_lines project_name description t_created t_session =
     [''# Project Progress Log'',
      [],
      ''## Project: '' @ project_name,
      ''**Description:** '' @ description,
      ''**Created:** '' @ strftime_minute t_created,
      [],
      ''---'',
      [],
      ''## Session: '' @ strftime_minute t_session @ '' (Initialization)'',
      [],
      ''### What was done:'',
      ''- Initialized project harness'',
      ''- Created feature_list.json with initial feature requirements'',
      ''- Created progress.txt for session tracking'',
      ''- Created init.sh for environment setup'',
      [],
      ''### Current State:'',
      ''- Project is ready for development'',
      ''- Feature list needs to be expanded based on requirements'',
      [],
      ''### Next Steps:'',
      ''- Review and expand feature_list.json with all required features'',
      ''- Implement the first feature from the list'',
      [],
      ''---'',
      []] @ progress_notes"

definition progress_content :: "string \<Rightarrow> string \<Rightarrow> datetime \<Rightarrow> datetime \<Rightarrow> string" where
  "progress_content project_name description t_created t_session =
     unlines (progress_lines project_name description t_created t_session)"

definition create_progress_file :: "string \<Rightarrow> path \<Rightarrow> string \<Rightarrow> world \<Rightarrow> outcome" where
  "create_progress_file project_name harness_dir description w =
     (let (t_created, w1) = datetime_now w;
          (t_session, w2) = datetime_now w1;
          output_path = joinpath harness_dir ''progress.txt''
      in and_then
           (write_text output_path
              (progress_content project_name description t_created t_session) w2)
           (\<lambda>w3. (None, print (check_mark @ '' Created '' @ path_str output_path) w3)))"

subsection \<open>\<^verbatim>\<open>create_init_script\<close>\<close>

definition init_script_lines :: "string list" where
  \<open>init_script_lines =
      [''#!/bin/bash'',
       ''# Development Environment Initialization Script'',
       ''# Run this at the start of each coding session'',
       [],
       ''set -e'',
       [],
       ''echo "'' @ rocket_mark @ '' Starting development environment..."'',
       [],
       ''# Resolve paths'',
       ''SCRIPT_DIR="$(cd "$(dirname "$0")" && pwd)"'',
       ''PROJECT_ROOT="$(cd "$SCRIPT_DIR/../.." && pwd)"'',
       [],
       ''# Navigate to project root'',
       ''cd "$PROJECT_ROOT"'',
       [],
       ''# Check for common package managers and install dependencies'',
       ''if [ -f "package.json" ]; then'',
       ''    echo "'' @ package_mark @ '' Installing Node.js dependencies..."'',
       ''    npm install'',
       ''elif [ -f "requirements.txt" ]; then'',
       ''    echo "'' @ snake_mark @ '' Installing Python dependencies..."'',
       ''    pip install -r requirements.txt'',
       ''elif [ -f "Cargo.toml" ]; then'',
       ''    echo "'' @ crab_mark @ '' Building Rust project..."'',
       ''    cargo build'',
       ''elif [ -f "go.mod" ]; then'',
       ''    echo "'' @ gopher_mark @ '' Installing Go dependencies..."'',
       ''    go mod download'',
       ''fi'',
       [],
       ''# Start development server (customize based on your project)'',
       ''# Uncomment and modify the appropriate line:'',
       [],
       ''# Node.js'',
       ''# npm run dev &'',
       [],
       ''# Python Flask'',
       ''# python app.py &'',
       [],
       ''# Python Django'',
       ''# python manage.py runserver &'',
       [],
       ''# Go'',
       ''# go run main.go &'',
       [],
       ''echo "'' @ check_mark @ '' Development environment ready!"'',
       ''echo ""'',
       ''echo "'' @ clipboard_mark @ '' Quick commands:"'',
       ''echo "   - Check progress: cat $SCRIPT_DIR/progress.txt"'',
       ''echo "   - View features:  cat $SCRIPT_DIR/feature_list.json"'',
       ''echo "   - Git history:    git log --oneline -10"'']\<close>

definition init_script_content :: string where
  "init_script_content = unlines init_script_lines"

definition create_init_script :: "path \<Rightarrow> world \<Rightarrow> outcome" where
  "create_init_script harness_dir w =
     (let output_path = joinpath harness_dir ''init.sh''
      in and_then (write_text output_path init_script_content w)
           (\<lambda>w1. and_then (os_chmod output_path 493 w1)
              (\<lambda>w2. (None, print (check_mark @ '' Created '' @ path_str output_path) w2))))"

subsection \<open>\<^verbatim>\<open>main\<close>\<close>

text \<open>
  \<^verbatim>\<open>argparse\<close> is the standard library's, and what \<^verbatim>\<open>parse_args()\<close> does with the command
  line is taken as given: it returns the three positional strings, or it leaves the
  process, with status 2 after reporting an error and with status 0 after printing the help.
\<close>

datatype parse_outcome =
    Namespace (project_path_arg: string) (feature_name_arg: string) (description_arg: string)
  | UsageError
  | HelpShown

definition prints :: "string list \<Rightarrow> world \<Rightarrow> world" where
  "prints ls w = fold print ls w"

definition harness_dir_of :: "path \<Rightarrow> string \<Rightarrow> path" where
  "harness_dir_of project_path feature_name =
     joinpath (joinpath project_path ''long_running'') feature_name"

text \<open>The two directory steps of \<^verbatim>\<open>main\<close>.\<close>

definition make_directories :: "path \<Rightarrow> path \<Rightarrow> world \<Rightarrow> outcome" where
  "make_directories project_path harness_dir w =
     and_then
       (if \<not> path_exists (fs w) project_path
        then and_then (mkdir_parents False project_path w)
               (\<lambda>w1. (None,
                  print (folder_mark @ '' Created project directory: '' @
                         path_str project_path) w1))
        else (None, w))
       (mkdir_parents True harness_dir)"

text \<open>The three calls under \<^verbatim>\<open># Create harness files\<close>.\<close>

definition create_harness_files :: "string \<Rightarrow> path \<Rightarrow> string \<Rightarrow> world \<Rightarrow> outcome" where
  "create_harness_files project_name harness_dir description w =
     and_then (create_feature_list project_name harness_dir description w)
       (\<lambda>w1. and_then (create_progress_file project_name harness_dir description w1)
          (create_init_script harness_dir))"

definition opening_lines :: "string \<Rightarrow> string \<Rightarrow> string list" where
  "opening_lines project_name description =
     [[CHR 0x0A] @ wrench_mark @ '' Initializing harness for: '' @ project_name,
      ''   Description: '' @ description @ [CHR 0x0A]]"

definition closing_lines :: "path \<Rightarrow> string \<Rightarrow> string list" where
  "closing_lines project_path feature_name =
     [[CHR 0x0A] @ check_mark @ '' Harness initialization complete!'',
      [CHR 0x0A] @ ''Next steps:'',
      ''  1. cd '' @ path_str project_path,
      ''  2. Edit long_running/'' @ feature_name @ ''/feature_list.json to add your features'',
      ''  3. git init && git add . && git commit -m '' @ [CHR 0x27] @ ''Initial setup'' @
        [CHR 0x27],
      ''  4. Start implementing features one at a time'']"

definition run_main :: "string \<Rightarrow> string \<Rightarrow> string \<Rightarrow> world \<Rightarrow> outcome" where
  "run_main project_arg feature_name description w =
     (let project_path = resolve w project_arg;
          harness_dir = harness_dir_of project_path feature_name;
          project_name = path_name project_path
      in and_then (make_directories project_path harness_dir w)
        (\<lambda>w1. and_then
           (create_harness_files project_name harness_dir description
              (prints (opening_lines project_name description) w1))
        (\<lambda>w2. (None, prints (closing_lines project_path feature_name) w2))))"

text \<open>
  The exit status of the process: 0 when \<^verbatim>\<open>main\<close> returns, 1 when an exception leaves it,
  and the status \<^verbatim>\<open>argparse\<close> exits with otherwise, before anything else is done.
\<close>

definition main :: "parse_outcome \<Rightarrow> world \<Rightarrow> nat \<times> world" where
  "main args w =
     (case args of
        UsageError \<Rightarrow> (2, w)
      | HelpShown \<Rightarrow> (0, w)
      | Namespace project_arg feature_name description \<Rightarrow>
          (case run_main project_arg feature_name description w of
             (None, w') \<Rightarrow> (0, w')
           | (Some e, w') \<Rightarrow> (1, w')))"

section \<open>The conditional of the generated script\<close>










section \<open>Notions used in the statements\<close>

subsection \<open>What the file steps write\<close>

text \<open>
  The mode a file has after it is written: its own when it was there, the mode of a new file
  otherwise. A location can be written when it is not a directory and the process is not
  refused there (in its directory, when the file is new).
\<close>

definition kept_mode :: "world \<Rightarrow> path \<Rightarrow> nat" where
  "kept_mode w q = (case fs w q of Some (File _ m) \<Rightarrow> m | _ \<Rightarrow> create_mode w)"

definition can_write :: "world \<Rightarrow> path \<Rightarrow> bool" where
  "can_write w q =
     (case fs w q of
        None \<Rightarrow> butlast q \<notin> denied w
      | Some Dir \<Rightarrow> False
      | Some (File _ _) \<Rightarrow> q \<notin> denied w)"

definition created_line :: "path \<Rightarrow> string" where
  "created_line p = check_mark @ '' Created '' @ path_str p @ [CHR 0x0A]"

definition written :: "string \<Rightarrow> path \<Rightarrow> string \<Rightarrow> path \<Rightarrow> world \<Rightarrow> world" where
  "written n hdir d D w =
     w\<lparr>fs := (fs w)
           (D @ [''feature_list.json''] \<mapsto>
              File (json_dump (feature_list n d (now w (ticks w)) (now w (ticks w + 1))))
                   (kept_mode w (D @ [''feature_list.json''])),
            D @ [''progress.txt''] \<mapsto>
              File (progress_content n d (now w (ticks w + 2)) (now w (ticks w + 3)))
                   (kept_mode w (D @ [''progress.txt''])),
            D @ [''init.sh''] \<mapsto> File init_script_content 493),
        ticks := ticks w + 4,
        stdout := stdout w @ created_line (hdir @ [''feature_list.json'']) @
                  created_line (hdir @ [''progress.txt'']) @
                  created_line (hdir @ [''init.sh''])\<rparr>"

definition can_write_all :: "world \<Rightarrow> path \<Rightarrow> bool" where
  "can_write_all w D \<longleftrightarrow>
     can_write w (D @ [''feature_list.json'']) \<and> can_write w (D @ [''progress.txt'']) \<and>
     can_write w (D @ [''init.sh'']) \<and> D @ [''init.sh''] \<notin> denied w"

subsection \<open>Filesystems compared\<close>

definition fs_grows :: "filesystem \<Rightarrow> filesystem \<Rightarrow> bool" where
  "fs_grows f f' \<longleftrightarrow> (\<forall>q. f' q = f q \<or> (f q = None \<and> f' q = Some Dir))"

definition same_env :: "world \<Rightarrow> world \<Rightarrow> bool" where
  "same_env w w' \<longleftrightarrow>
     denied w' = denied w \<and> cwd w' = cwd w \<and> create_mode w' = create_mode w \<and>
     now w' = now w \<and> ticks w' = ticks w"

definition fs_keeps :: "filesystem \<Rightarrow> filesystem \<Rightarrow> bool" where
  "fs_keeps f g \<longleftrightarrow> (\<forall>q. (f q = Some Dir \<longrightarrow> g q = Some Dir) \<and> (f q \<noteq> None \<longrightarrow> g q \<noteq> None))"

subsection \<open>Locations\<close>

text \<open>
  The place a path leads to when every directory on its way exists: its \<^verbatim>\<open>..\<close> parts
  collapsed from the root.
\<close>

definition location :: "path \<Rightarrow> path" where
  "location p = foldl step [] p"





subsection \<open>Numbered lines\<close>

text \<open>The numbered lines of a text.\<close>

definition numbered_steps :: "string list \<Rightarrow> string list" where
  "numbered_steps ls =
     filter (\<lambda>l. case l of c # d # _ \<Rightarrow> c \<in> set ''0123456789'' \<and> d = CHR ''.'' | _ \<Rightarrow> False) ls"

subsection \<open>Sample worlds\<close>

text \<open>
  A sample world: a root directory with a directory \<^verbatim>\<open>/home\<close>, which is the working
  directory; nothing is refused; the clock advances by a microsecond at each reading.
\<close>

definition demo_clock :: "nat \<Rightarrow> datetime" where
  "demo_clock k =
     \<lparr>year = 2026, month = 11, day = 4, hour = 9, minute = 5, second = 7, microsecond = k\<rparr>"

definition demo_world :: world where
  "demo_world =
     \<lparr>fs = [[] \<mapsto> Dir, [''home''] \<mapsto> Dir], denied = {}, cwd = [''home''],
      create_mode = 420, now = demo_clock, ticks = 0, stdout = []\<rparr>"

definition demo_args :: parse_outcome where
  "demo_args = Namespace ''proj'' ''feat'' ''demo''"

definition demo_after :: world where
  "demo_after = snd (main demo_args demo_world)"

text \<open>
  A world in which the harness directory is there and \<^verbatim>\<open>progress.txt\<close> in it is a
  directory, so that the second file cannot be written.
\<close>

definition blocked_world :: world where
  "blocked_world =
     \<lparr>fs = [[] \<mapsto> Dir, [''home''] \<mapsto> Dir, [''home'', ''proj''] \<mapsto> Dir,
            [''home'', ''proj'', ''long_running''] \<mapsto> Dir,
            [''home'', ''proj'', ''long_running'', ''feat''] \<mapsto> Dir,
            [''home'', ''proj'', ''long_running'', ''feat'', ''progress.txt''] \<mapsto> Dir],
      denied = {}, cwd = [''home''], create_mode = 420, now = demo_clock, ticks = 0,
      stdout = []\<rparr>"

definition blocked_start :: world where
  "blocked_start = prints (opening_lines ''proj'' ''demo'') blocked_world"

text \<open>The world after the sample run with the feature name \<^verbatim>\<open>a/b\<close>.\<close>

definition nested_after :: world where
  "nested_after = snd (main (Namespace ''proj'' ''a/b'' ''demo'') demo_world)"

section \<open>Lemmas\<close>

subsection \<open>Sequencing and walking\<close>

lemma and_then_None: "and_then r f = (None, w') \<longleftrightarrow> (\<exists>w1. r = (None, w1) \<and> f w1 = (None, w'))"
  by (cases r) (auto simp: and_then_def split: option.splits)

lemma and_then_Some:
  "and_then r f = (Some e, w') \<longleftrightarrow> r = (Some e, w') \<or> (\<exists>w1. r = (None, w1) \<and> f w1 = (Some e, w'))"
  by (cases r) (auto simp: and_then_def split: option.splits)

lemma joinpath_feature_list [simp]: "joinpath hdir ''feature_list.json'' = hdir @ [''feature_list.json'']"
  by (simp add: joinpath_def parts_def is_absolute_def)

lemma joinpath_progress [simp]: "joinpath hdir ''progress.txt'' = hdir @ [''progress.txt'']"
  by (simp add: joinpath_def parts_def is_absolute_def)

lemma joinpath_init [simp]: "joinpath hdir ''init.sh'' = hdir @ [''init.sh'']"
  by (simp add: joinpath_def parts_def is_absolute_def)

lemma joinpath_long_running [simp]: "joinpath p ''long_running'' = p @ [''long_running'']"
  by (simp add: joinpath_def parts_def is_absolute_def)

lemma walk_dir: "walk f cur cs = Inr d \<Longrightarrow> f d = Some Dir"
  by (induction cs arbitrary: cur) (auto split: option.splits node.splits)

lemma walk_lexical: "walk f cur cs = Inr d \<Longrightarrow> d = foldl step cur cs"
  by (induction cs arbitrary: cur) (auto split: option.splits node.splits)

lemma walk_mono:
  "walk f cur cs = Inr d \<Longrightarrow> (\<And>p. f p = Some Dir \<Longrightarrow> g p = Some Dir) \<Longrightarrow> walk g cur cs = Inr d"
  by (induction cs arbitrary: cur) (auto split: option.splits node.splits)

lemma walk_upd:
  "walk f cur cs = Inr d \<Longrightarrow> f q \<noteq> Some Dir \<Longrightarrow> walk (f(q \<mapsto> n)) cur cs = Inr d"
  by (erule walk_mono) auto

lemma walk_None: "f cur = None \<Longrightarrow> walk f cur ds = Inl FileNotFoundError"
  by (cases ds) auto

lemma walk_File: "f cur = Some (File c m) \<Longrightarrow> walk f cur ds = Inl NotADirectoryError"
  by (cases ds) auto

lemma walk_upd_eq:
  "walk f cur cs = Inr d \<Longrightarrow> f q \<noteq> Some Dir \<Longrightarrow> g = f(q \<mapsto> n) \<Longrightarrow> walk g cur cs = Inr d"
  by (simp add: walk_upd)

lemma walk_append:
  "walk f cur (cs @ ds) = (case walk f cur cs of Inl e \<Rightarrow> Inl e | Inr d \<Rightarrow> walk f d ds)"
  by (induction cs arbitrary: cur) (auto simp: walk_None walk_File split: option.splits node.splits)

lemma namei_snoc:
  "namei f (hdir @ [x]) = (case walk f [] hdir of Inl e \<Rightarrow> Inl e | Inr d \<Rightarrow> Inr (step d x))"
  by (simp add: namei_def split: sum.splits)

subsection \<open>Writing a file\<close>

lemma kept_mode_ticks [simp]: "kept_mode (w\<lparr>ticks := t\<rparr>) q = kept_mode w q"
  by (simp add: kept_mode_def split: option.splits node.splits)

lemma kept_mode_stdout [simp]: "kept_mode (w\<lparr>stdout := t\<rparr>) q = kept_mode w q"
  by (simp add: kept_mode_def split: option.splits node.splits)

lemma kept_mode_fs_other:
  "q \<noteq> q' \<Longrightarrow> kept_mode (w\<lparr>fs := (fs w)(q' \<mapsto> n)\<rparr>) q = kept_mode w q"
  by (simp add: kept_mode_def split: option.splits node.splits)

lemma can_write_not_dir: "can_write w q \<Longrightarrow> fs w q \<noteq> Some Dir"
  by (auto simp: can_write_def)

lemma can_write_frame [simp]:
  "can_write (w\<lparr>ticks := t\<rparr>) q = can_write w q"
  "can_write (w\<lparr>stdout := s\<rparr>) q = can_write w q"
  by (simp_all add: can_write_def split: option.splits node.splits)

lemma can_write_fs_other:
  "q \<noteq> q' \<Longrightarrow> can_write (w\<lparr>fs := (fs w)(q' \<mapsto> n)\<rparr>) q = can_write w q"
  by (simp add: can_write_def split: option.splits node.splits)

lemma write_text_iff:
  assumes "x \<noteq> ''..''"
  shows "write_text (hdir @ [x]) text w = (None, w') \<longleftrightarrow>
     (\<exists>D. walk (fs w) [] hdir = Inr D \<and> can_write w (D @ [x]) \<and>
          w' = w\<lparr>fs := (fs w)(D @ [x] \<mapsto> File text (kept_mode w (D @ [x])))\<rparr>)"
  using assms
  by (auto simp: write_text_def namei_snoc names_dir_def step_def kept_mode_def can_write_def
           split: sum.splits option.splits node.splits if_splits)

lemma write_text_Some: "write_text p text w = (Some e, w') \<Longrightarrow> w' = w"
  by (auto simp: write_text_def split: sum.splits option.splits node.splits if_splits)

lemma os_chmod_Some: "os_chmod p m w = (Some e, w') \<Longrightarrow> w' = w"
  by (auto simp: os_chmod_def split: sum.splits option.splits node.splits if_splits)

lemma os_chmod_file:
  assumes "walk (fs w) [] hdir = Inr d" and "x \<noteq> ''..''" and "fs w (d @ [x]) = Some (File text m0)"
  shows "os_chmod (hdir @ [x]) m w =
          (if d @ [x] \<in> denied w then (Some PermissionError, w)
           else (None, w\<lparr>fs := (fs w)(d @ [x] \<mapsto> File text m)\<rparr>))"
  using assms by (simp add: os_chmod_def namei_snoc step_def)

subsection \<open>The three file steps\<close>

lemma create_feature_list_iff:
  "create_feature_list n hdir d w = (None, w') \<longleftrightarrow>
   (\<exists>D. walk (fs w) [] hdir = Inr D \<and> can_write w (D @ [''feature_list.json'']) \<and>
     w' = w\<lparr>fs := (fs w)(D @ [''feature_list.json''] \<mapsto>
                   File (json_dump (feature_list n d (now w (ticks w)) (now w (Suc (ticks w)))))
                        (kept_mode w (D @ [''feature_list.json'']))),
             ticks := Suc (Suc (ticks w)),
             stdout := stdout w @ created_line (hdir @ [''feature_list.json''])\<rparr>)"
  by (auto simp: create_feature_list_def Let_def datetime_now_def and_then_None created_line_def
                 write_text_iff print_def)

lemma create_feature_list_Some:
  "create_feature_list n hdir d w = (Some e, w') \<Longrightarrow> w' = w\<lparr>ticks := Suc (Suc (ticks w))\<rparr>"
  by (auto simp: create_feature_list_def Let_def datetime_now_def and_then_Some dest: write_text_Some)

lemma create_progress_file_iff:
  "create_progress_file n hdir d w = (None, w') \<longleftrightarrow>
   (\<exists>D. walk (fs w) [] hdir = Inr D \<and> can_write w (D @ [''progress.txt'']) \<and>
     w' = w\<lparr>fs := (fs w)(D @ [''progress.txt''] \<mapsto>
                   File (progress_content n d (now w (ticks w)) (now w (Suc (ticks w))))
                        (kept_mode w (D @ [''progress.txt'']))),
             ticks := Suc (Suc (ticks w)),
             stdout := stdout w @ created_line (hdir @ [''progress.txt''])\<rparr>)"
  by (auto simp: create_progress_file_def Let_def datetime_now_def and_then_None created_line_def
                 write_text_iff print_def)

lemma create_progress_file_Some:
  "create_progress_file n hdir d w = (Some e, w') \<Longrightarrow> w' = w\<lparr>ticks := Suc (Suc (ticks w))\<rparr>"
  by (auto simp: create_progress_file_def Let_def datetime_now_def and_then_Some dest: write_text_Some)

lemma create_init_script_iff:
  "create_init_script hdir w = (None, w') \<longleftrightarrow>
   (\<exists>D. walk (fs w) [] hdir = Inr D \<and> can_write w (D @ [''init.sh'']) \<and>
        D @ [''init.sh''] \<notin> denied w \<and>
     w' = w\<lparr>fs := (fs w)(D @ [''init.sh''] \<mapsto> File init_script_content 493),
             stdout := stdout w @ created_line (hdir @ [''init.sh''])\<rparr>)"
proof -
  have ch: "os_chmod (hdir @ [''init.sh'']) 493
              (w\<lparr>fs := (fs w)(D @ [''init.sh''] \<mapsto> File init_script_content m)\<rparr>) =
            (if D @ [''init.sh''] \<in> denied w then
               (Some PermissionError, w\<lparr>fs := (fs w)(D @ [''init.sh''] \<mapsto> File init_script_content m)\<rparr>)
             else (None, w\<lparr>fs := (fs w)(D @ [''init.sh''] \<mapsto> File init_script_content 493)\<rparr>))"
    if "walk (fs w) [] hdir = Inr D" "can_write w (D @ [''init.sh''])" for D m
  proof -
    have "walk (fs (w\<lparr>fs := (fs w)(D @ [''init.sh''] \<mapsto> File init_script_content m)\<rparr>)) [] hdir = Inr D"
      using that by (simp add: walk_upd can_write_not_dir)
    from os_chmod_file [OF this, of "''init.sh''" init_script_content m 493]
    show ?thesis by simp
  qed
  show ?thesis
    by (auto simp: create_init_script_def Let_def and_then_None created_line_def
                   write_text_iff print_def ch split: if_splits)
qed

lemma create_harness_files_ok:
  assumes D: "walk (fs w) [] hdir = Inr D" and cw: "can_write_all w D"
  shows "create_harness_files n hdir d w = (None, written n hdir d D w)"
proof -
  define w1 where "w1 = w\<lparr>fs := (fs w)(D @ [''feature_list.json''] \<mapsto>
                   File (json_dump (feature_list n d (now w (ticks w)) (now w (Suc (ticks w)))))
                        (kept_mode w (D @ [''feature_list.json'']))),
             ticks := Suc (Suc (ticks w)),
             stdout := stdout w @ created_line (hdir @ [''feature_list.json''])\<rparr>"
  define w2 where "w2 = w1\<lparr>fs := (fs w1)(D @ [''progress.txt''] \<mapsto>
                   File (progress_content n d (now w1 (ticks w1)) (now w1 (Suc (ticks w1))))
                        (kept_mode w1 (D @ [''progress.txt'']))),
             ticks := Suc (Suc (ticks w1)),
             stdout := stdout w1 @ created_line (hdir @ [''progress.txt''])\<rparr>"
  define w3 where "w3 = w2\<lparr>fs := (fs w2)(D @ [''init.sh''] \<mapsto> File init_script_content 493),
             stdout := stdout w2 @ created_line (hdir @ [''init.sh''])\<rparr>"
  have s1: "create_feature_list n hdir d w = (None, w1)"
    unfolding create_feature_list_iff w1_def using D cw by (auto simp: can_write_all_def)
  have D1: "walk (fs w1) [] hdir = Inr D"
    using D cw by (simp add: w1_def walk_upd can_write_not_dir can_write_all_def)
  have c1: "can_write w1 (D @ [''progress.txt''])"
    using cw by (simp add: w1_def can_write_def can_write_all_def split: option.splits node.splits)
  have s2: "create_progress_file n hdir d w1 = (None, w2)"
    unfolding create_progress_file_iff w2_def using D1 c1 by blast
  have D2: "walk (fs w2) [] hdir = Inr D"
    using D1 c1 by (simp add: w2_def walk_upd can_write_not_dir)
  have c2: "can_write w2 (D @ [''init.sh''])" "D @ [''init.sh''] \<notin> denied w2"
    using cw by (simp_all add: w2_def w1_def can_write_def can_write_all_def
                          split: option.splits node.splits)
  have s3: "create_init_script hdir w2 = (None, w3)"
    unfolding create_init_script_iff w3_def using D2 c2 by blast
  have km: "kept_mode w1 (D @ [''progress.txt'']) = kept_mode w (D @ [''progress.txt''])"
    by (simp add: w1_def kept_mode_def split: option.splits node.splits)
  have n3: "ticks w + 3 = Suc (Suc (Suc (ticks w)))" by simp
  have "w3 = written n hdir d D w"
    by (simp add: written_def w3_def w2_def km) (simp add: w1_def n3)
  then show ?thesis
    using s1 s2 s3 by (simp add: create_harness_files_def and_then_def)
qed

lemma create_harness_files_None:
  assumes "create_harness_files n hdir d w = (None, w')"
  shows "\<exists>D. walk (fs w) [] hdir = Inr D \<and> can_write_all w D \<and> w' = written n hdir d D w"
proof -
  from assms obtain w1 w2 where
    s1: "create_feature_list n hdir d w = (None, w1)" and
    s2: "create_progress_file n hdir d w1 = (None, w2)" and
    s3: "create_init_script hdir w2 = (None, w')"
    by (auto simp: create_harness_files_def and_then_None)
  from s1 obtain D where
    D: "walk (fs w) [] hdir = Inr D" and c1: "can_write w (D @ [''feature_list.json''])" and
    w1: "w1 = w\<lparr>fs := (fs w)(D @ [''feature_list.json''] \<mapsto>
                   File (json_dump (feature_list n d (now w (ticks w)) (now w (Suc (ticks w)))))
                        (kept_mode w (D @ [''feature_list.json'']))),
             ticks := Suc (Suc (ticks w)),
             stdout := stdout w @ created_line (hdir @ [''feature_list.json''])\<rparr>"
    unfolding create_feature_list_iff by blast
  have D1: "walk (fs w1) [] hdir = Inr D"
    using D c1 by (simp add: w1 walk_upd can_write_not_dir)
  from s2 D1 have c2': "can_write w1 (D @ [''progress.txt''])" and
    w2: "w2 = w1\<lparr>fs := (fs w1)(D @ [''progress.txt''] \<mapsto>
                   File (progress_content n d (now w1 (ticks w1)) (now w1 (Suc (ticks w1))))
                        (kept_mode w1 (D @ [''progress.txt'']))),
             ticks := Suc (Suc (ticks w1)),
             stdout := stdout w1 @ created_line (hdir @ [''progress.txt''])\<rparr>"
    unfolding create_progress_file_iff by auto
  have D2: "walk (fs w2) [] hdir = Inr D"
    using D1 c2' by (simp add: w2 walk_upd can_write_not_dir)
  from s3 D2 have c3': "can_write w2 (D @ [''init.sh''])" "D @ [''init.sh''] \<notin> denied w2"
    unfolding create_init_script_iff by auto
  have "can_write w (D @ [''progress.txt''])"
    using c2' by (simp add: w1 can_write_def split: option.splits node.splits if_splits)
  moreover have "can_write w (D @ [''init.sh''])" "D @ [''init.sh''] \<notin> denied w"
    using c3' by (simp_all add: w2 w1 can_write_def split: option.splits node.splits if_splits)
  ultimately have cw: "can_write_all w D"
    using c1 by (simp add: can_write_all_def)
  from create_harness_files_ok [OF D cw, of n d] assms D cw show ?thesis by auto
qed

subsection \<open>Printing, and directories that are made\<close>

lemma unlines_append: "unlines (xs @ ys) = unlines xs @ unlines ys"
  by (simp add: unlines_def)

lemma fs_grows_refl [simp]: "fs_grows f f"
  by (simp add: fs_grows_def)

lemma fs_grows_trans: "fs_grows f g \<Longrightarrow> fs_grows g h \<Longrightarrow> fs_grows f h"
  unfolding fs_grows_def by metis

lemma same_env_refl [simp]: "same_env w w"
  by (simp add: same_env_def)

lemma same_env_trans: "same_env w w1 \<Longrightarrow> same_env w1 w2 \<Longrightarrow> same_env w w2"
  by (simp add: same_env_def)

lemma print_frame [simp]:
  "fs (print s w) = fs w" "denied (print s w) = denied w" "cwd (print s w) = cwd w"
  "create_mode (print s w) = create_mode w" "now (print s w) = now w"
  "ticks (print s w) = ticks w" "stdout (print s w) = stdout w @ s @ [CHR 0x0A]"
  by (simp_all add: print_def)

lemma prints_eq: "prints ls w = w\<lparr>stdout := stdout w @ unlines ls\<rparr>"
  unfolding prints_def
  by (induction ls arbitrary: w) (simp_all add: unlines_def print_def)

lemma os_mkdir_grows:
  "os_mkdir p w = (r, w') \<Longrightarrow> fs_grows (fs w) (fs w') \<and> same_env w w' \<and> stdout w' = stdout w"
  by (auto simp: os_mkdir_def fs_grows_def same_env_def split: sum.splits if_splits)

lemma mkdir_other_error_same: "mkdir_other_error eo p e w = (r, w') \<Longrightarrow> w' = w"
  by (auto simp: mkdir_other_error_def split: if_splits)

lemma mkdir_flat_grows:
  "mkdir_flat eo p w = (r, w') \<Longrightarrow> fs_grows (fs w) (fs w') \<and> same_env w w' \<and> stdout w' = stdout w"
  by (auto simp: mkdir_flat_def split: prod.splits option.splits if_splits
           dest!: os_mkdir_grows mkdir_other_error_same)

lemma os_mkdir_Some: "os_mkdir p w = (Some e, w') \<Longrightarrow> w' = w"
  by (auto simp: os_mkdir_def split: sum.splits if_splits)

lemma mkdir_parents_grows:
  "mkdir_parents eo p w = (r, w') \<Longrightarrow> fs_grows (fs w) (fs w') \<and> same_env w w' \<and> stdout w' = stdout w"
proof (induction eo p w arbitrary: r w' rule: mkdir_parents.induct)
  case (1 eo p w)
  show ?case
  proof (cases "os_mkdir p w")
    case (Pair r0 w0)
    show ?thesis
    proof (cases r0)
      case None
      with Pair "1.prems" show ?thesis
        by (auto simp: mkdir_parents.simps [of eo p w] dest: os_mkdir_grows)
    next
      case (Some e)
      with Pair have w0: "w0 = w" by (auto dest: os_mkdir_Some)
      show ?thesis
      proof (cases "e = FileNotFoundError \<and> p \<noteq> []")
        case False
        with Pair Some w0 "1.prems" show ?thesis
          by (auto simp: mkdir_parents.simps [of eo p w] split: if_splits
                   dest: mkdir_other_error_same)
      next
        case True
        obtain r1 w1 where par: "mkdir_parents True (butlast p) w = (r1, w1)"
          by (cases "mkdir_parents True (butlast p) w") auto
        from "1.IH" [OF Pair [symmetric] _ _ _ par [unfolded w0 [symmetric]]] Some True w0
        have g1: "fs_grows (fs w) (fs w1) \<and> same_env w w1 \<and> stdout w1 = stdout w"
          by auto
        from Pair Some True w0 par "1.prems"
        have "(r1 \<noteq> None \<and> w' = w1) \<or> mkdir_flat eo p w1 = (r, w')"
          by (auto simp: mkdir_parents.simps [of eo p w] and_then_def split: option.splits)
        then show ?thesis
          using g1 by (auto dest!: mkdir_flat_grows intro: fs_grows_trans same_env_trans)
      qed
    qed
  qed
qed

lemma walk_grows: "walk f cur cs = Inr d \<Longrightarrow> fs_grows f g \<Longrightarrow> walk g cur cs = Inr d"
  by (erule walk_mono) (metis fs_grows_def option.distinct(1))

lemma namei_grows: "namei f p = Inr q \<Longrightarrow> fs_grows f g \<Longrightarrow> namei g p = Inr q"
  by (auto simp: namei_def split: if_splits sum.splits dest: walk_grows)

lemma is_dir_iff: "is_dir f p \<longleftrightarrow> (\<exists>q. namei f p = Inr q \<and> f q = Some Dir)"
  by (auto simp: is_dir_def stat_def split: sum.splits option.splits node.splits)

lemma path_exists_iff: "path_exists f p \<longleftrightarrow> (\<exists>q. namei f p = Inr q \<and> f q \<noteq> None)"
  by (auto simp: path_exists_def stat_def split: sum.splits option.splits)

lemma is_dir_grows: "is_dir f p \<Longrightarrow> fs_grows f g \<Longrightarrow> is_dir g p"
  unfolding is_dir_iff by (metis fs_grows_def namei_grows option.distinct(1))

lemma path_exists_grows: "path_exists f p \<Longrightarrow> fs_grows f g \<Longrightarrow> path_exists g p"
  unfolding path_exists_iff by (metis fs_grows_def namei_grows)

lemma is_dir_walk: "is_dir f p \<longleftrightarrow> (\<exists>D. walk f [] p = Inr D)"
proof (cases p rule: rev_cases)
  case Nil
  then show ?thesis
    by (auto simp: is_dir_iff namei_def split: option.splits node.splits)
next
  case (snoc cs x)
  show ?thesis
    unfolding is_dir_iff snoc namei_snoc walk_append
    by (auto split: sum.splits option.splits node.splits dest: walk_dir)
qed

lemma os_mkdir_None_is_dir: "os_mkdir p w = (None, w') \<Longrightarrow> is_dir (fs w') p"
proof -
  assume a: "os_mkdir p w = (None, w')"
  then obtain q where q: "namei (fs w) p = Inr q" "fs w q = None"
    and w': "w' = w\<lparr>fs := (fs w)(q \<mapsto> Dir)\<rparr>"
    by (auto simp: os_mkdir_def split: sum.splits if_splits)
  have "fs_grows (fs w) (fs w')"
    using a by (auto dest: os_mkdir_grows)
  from namei_grows [OF q(1) this] show ?thesis
    by (auto simp: is_dir_iff w')
qed

lemma mkdir_flat_None_is_dir: "mkdir_flat eo p w = (None, w') \<Longrightarrow> is_dir (fs w') p"
  by (auto simp: mkdir_flat_def mkdir_other_error_def split: prod.splits option.splits if_splits
           dest: os_mkdir_None_is_dir os_mkdir_Some)

lemma mkdir_parents_None_is_dir:
  assumes "mkdir_parents eo p w = (None, w')"
  shows "is_dir (fs w') p"
proof (cases "os_mkdir p w")
  case (Pair r0 w0)
  show ?thesis
  proof (cases r0)
    case None
    with Pair assms have "os_mkdir p w = (None, w')"
      by (simp add: mkdir_parents.simps [of eo p w])
    then show ?thesis by (rule os_mkdir_None_is_dir)
  next
    case (Some e)
    with Pair assms have
      "(\<exists>w1. mkdir_flat eo p w1 = (None, w')) \<or> mkdir_other_error eo p e w0 = (None, w')"
      by (auto simp: mkdir_parents.simps [of eo p w] and_then_None split: if_splits)
    then show ?thesis
      by (auto simp: mkdir_other_error_def split: if_splits dest: mkdir_flat_None_is_dir)
  qed
qed

lemma os_mkdir_existing:
  assumes "walk (fs w) [] p = Inr D"
  shows "os_mkdir p w = (Some FileExistsError, w)"
proof (cases p rule: rev_cases)
  case Nil
  then show ?thesis by (simp add: os_mkdir_def namei_def names_dir_def)
next
  case (snoc cs x)
  with assms show ?thesis
    by (auto simp: os_mkdir_def namei_snoc walk_append names_dir_def
             split: sum.splits option.splits node.splits)
qed

lemma mkdir_parents_existing:
  assumes "walk (fs w) [] p = Inr D"
  shows "mkdir_parents True p w = (None, w)"
  using os_mkdir_existing [OF assms] assms
  by (subst mkdir_parents.simps) (auto simp: mkdir_other_error_def is_dir_walk)

lemma is_dir_path_exists: "is_dir f p \<Longrightarrow> path_exists f p"
  by (auto simp: is_dir_iff path_exists_iff)

lemma make_directories_grows:
  assumes "make_directories p hdir w = (r, w')"
  shows "fs_grows (fs w) (fs w') \<and> same_env w w'"
proof (cases "path_exists (fs w) p")
  case True
  with assms show ?thesis
    by (auto simp: make_directories_def and_then_def dest: mkdir_parents_grows)
next
  case False
  obtain r1 w1 where m1: "mkdir_parents False p w = (r1, w1)"
    by (cases "mkdir_parents False p w") auto
  note g1 = mkdir_parents_grows [OF m1]
  show ?thesis
  proof (cases r1)
    case (Some e)
    with False m1 assms g1 show ?thesis
      by (auto simp: make_directories_def and_then_def)
  next
    case None
    with False m1 assms have
      "mkdir_parents True hdir
         (print (folder_mark @ '' Created project directory: '' @ path_str p) w1) = (r, w')"
      by (auto simp: make_directories_def and_then_def)
    from mkdir_parents_grows [OF this] g1 show ?thesis
      by (auto simp: same_env_def intro: fs_grows_trans)
  qed
qed

lemma make_directories_None:
  assumes "make_directories p hdir w = (None, w')"
  shows "is_dir (fs w') hdir \<and> path_exists (fs w') p"
proof -
  from assms obtain w1 where
    a: "(if \<not> path_exists (fs w) p
         then and_then (mkdir_parents False p w)
                (\<lambda>w1. (None, print (folder_mark @ '' Created project directory: '' @ path_str p) w1))
         else (None, w)) = (None, w1)"
    and b: "mkdir_parents True hdir w1 = (None, w')"
    by (auto simp: make_directories_def and_then_None)
  have "path_exists (fs w1) p"
    using a by (auto simp: and_then_None split: if_splits
                     dest!: mkdir_parents_None_is_dir is_dir_path_exists)
  moreover have "fs_grows (fs w1) (fs w')"
    using mkdir_parents_grows [OF b] by simp
  ultimately show ?thesis
    using mkdir_parents_None_is_dir [OF b] by (auto intro: path_exists_grows)
qed

subsection \<open>A completed run\<close>

lemma written_frame [simp]:
  "denied (written n hdir d D w) = denied w" "cwd (written n hdir d D w) = cwd w"
  "create_mode (written n hdir d D w) = create_mode w" "now (written n hdir d D w) = now w"
  "ticks (written n hdir d D w) = ticks w + 4"
  by (simp_all add: written_def)

lemma can_write_all_stdout [simp]: "can_write_all (w\<lparr>stdout := s\<rparr>) D = can_write_all w D"
  by (simp add: can_write_all_def)

lemma walk_written:
  assumes "walk (fs w) [] hdir = Inr D" and "can_write_all w D"
  shows "walk (fs (written n hdir d D w)) [] hdir = Inr D"
  using assms(1)
proof (rule walk_mono)
  fix p assume "fs w p = Some Dir"
  with assms(2) show "fs (written n hdir d D w) p = Some Dir"
    by (auto simp: written_def can_write_all_def dest: can_write_not_dir)
qed

lemma stat_snoc:
  "walk f [] hdir = Inr D \<Longrightarrow> x \<noteq> ''..'' \<Longrightarrow> f (D @ [x]) = Some n \<Longrightarrow> stat f (hdir @ [x]) = Inr n"
  by (simp add: stat_def namei_snoc step_def)

text \<open>What a completed run leaves.\<close>

lemma run_main_None:
  assumes "run_main a f d w = (None, w')"
  shows "\<exists>w1 D. make_directories (resolve w a) (harness_dir_of (resolve w a) f) w = (None, w1) \<and>
           walk (fs w1) [] (harness_dir_of (resolve w a) f) = Inr D \<and> can_write_all w1 D \<and>
           w' = prints (closing_lines (resolve w a) f)
                  (written (path_name (resolve w a)) (harness_dir_of (resolve w a) f) d D
                     (prints (opening_lines (path_name (resolve w a)) d) w1))"
proof -
  from assms obtain w1 w2 where
    m: "make_directories (resolve w a) (harness_dir_of (resolve w a) f) w = (None, w1)" and
    c: "create_harness_files (path_name (resolve w a)) (harness_dir_of (resolve w a) f) d
          (prints (opening_lines (path_name (resolve w a)) d) w1) = (None, w2)" and
    w': "w' = prints (closing_lines (resolve w a) f) w2"
    by (auto simp: run_main_def Let_def and_then_None)
  from create_harness_files_None [OF c] m w' show ?thesis
    by (auto simp: prints_eq)
qed

lemma main_zero:
  "main (Namespace a f d) w = (0, w') \<longleftrightarrow> run_main a f d w = (None, w')"
  by (auto simp: main_def split: prod.splits option.splits)

lemma completed_run:
  assumes "main (Namespace a f d) w = (0, w')"
  shows "\<exists>w1 D. make_directories (resolve w a) (harness_dir_of (resolve w a) f) w = (None, w1) \<and>
     walk (fs w1) [] (harness_dir_of (resolve w a) f) = Inr D \<and> can_write_all w1 D \<and>
     walk (fs w') [] (harness_dir_of (resolve w a) f) = Inr D \<and>
     fs w' = (fs w1)
       (D @ [''feature_list.json''] \<mapsto>
          File (json_dump (feature_list (path_name (resolve w a)) d
                             (now w (ticks w)) (now w (ticks w + 1))))
               (kept_mode w1 (D @ [''feature_list.json''])),
        D @ [''progress.txt''] \<mapsto>
          File (progress_content (path_name (resolve w a)) d
                  (now w (ticks w + 2)) (now w (ticks w + 3)))
               (kept_mode w1 (D @ [''progress.txt''])),
        D @ [''init.sh''] \<mapsto> File init_script_content 493) \<and>
     same_env w w1 \<and> denied w' = denied w \<and> cwd w' = cwd w \<and> create_mode w' = create_mode w \<and>
     now w' = now w \<and> ticks w' = ticks w + 4"
proof -
  from assms have "run_main a f d w = (None, w')" by (simp add: main_zero)
  from run_main_None [OF this] obtain w1 D where
    m: "make_directories (resolve w a) (harness_dir_of (resolve w a) f) w = (None, w1)" and
    D: "walk (fs w1) [] (harness_dir_of (resolve w a) f) = Inr D" and cw: "can_write_all w1 D" and
    w': "w' = prints (closing_lines (resolve w a) f)
                  (written (path_name (resolve w a)) (harness_dir_of (resolve w a) f) d D
                     (prints (opening_lines (path_name (resolve w a)) d) w1))"
    by blast
  have env: "same_env w w1"
    using make_directories_grows [OF m] by simp
  let ?w1' = "prints (opening_lines (path_name (resolve w a)) d) w1"
  have D': "walk (fs ?w1') [] (harness_dir_of (resolve w a) f) = Inr D" and cw': "can_write_all ?w1' D"
    using D cw by (simp_all add: prints_eq)
  have "walk (fs w') [] (harness_dir_of (resolve w a) f) = Inr D"
    using walk_written [OF D' cw'] by (simp add: w' prints_eq)
  moreover have "fs w' = (fs w1)
       (D @ [''feature_list.json''] \<mapsto>
          File (json_dump (feature_list (path_name (resolve w a)) d
                             (now w (ticks w)) (now w (ticks w + 1))))
               (kept_mode w1 (D @ [''feature_list.json''])),
        D @ [''progress.txt''] \<mapsto>
          File (progress_content (path_name (resolve w a)) d
                  (now w (ticks w + 2)) (now w (ticks w + 3)))
               (kept_mode w1 (D @ [''progress.txt''])),
        D @ [''init.sh''] \<mapsto> File init_script_content 493)"
    using env by (simp add: w' prints_eq written_def same_env_def)
  ultimately show ?thesis
    using m D cw env by (auto simp: w' prints_eq same_env_def)
qed

subsection \<open>The sample run\<close>

lemma demo_status: "fst (main demo_args demo_world) = 0"
  by code_simp

lemma demo_main: "main (Namespace ''proj'' ''feat'' ''demo'') demo_world = (0, demo_after)"
  using demo_status by (simp add: demo_after_def demo_args_def prod_eq_iff)

lemma demo_resolve: "resolve demo_world ''proj'' = [''home'', ''proj'']"
  by (simp add: resolve_def demo_world_def parts_def is_absolute_def step_def)

lemma demo_harness_dir:
  "harness_dir_of [''home'', ''proj''] ''feat'' = [''home'', ''proj'', ''long_running'', ''feat'']"
  by (simp add: harness_dir_of_def joinpath_def parts_def is_absolute_def)

lemma demo_world_simps:
  "now demo_world = demo_clock" "ticks demo_world = 0" "cwd demo_world = [''home'']"
  "denied demo_world = {}" "create_mode demo_world = 420"
  by (simp_all add: demo_world_def)

lemma demo_main_other:
  "main (Namespace ''/srv/app'' ''x/y'' ''another'') demo_world =
     (0, snd (main (Namespace ''/srv/app'' ''x/y'' ''another'') demo_world))"
proof -
  have "fst (main (Namespace ''/srv/app'' ''x/y'' ''another'') demo_world) = 0"
    by code_simp
  then show ?thesis by (simp add: prod_eq_iff)
qed

subsection \<open>What a failing step keeps\<close>

lemma fs_keeps_refl [simp]: "fs_keeps f f"
  by (simp add: fs_keeps_def)

lemma fs_keeps_trans: "fs_keeps f g \<Longrightarrow> fs_keeps g h \<Longrightarrow> fs_keeps f h"
  by (simp add: fs_keeps_def)

lemma fs_grows_keeps: "fs_grows f g \<Longrightarrow> fs_keeps f g"
  unfolding fs_grows_def fs_keeps_def by (metis option.distinct(1))

lemma fs_keeps_upd: "f q \<noteq> Some Dir \<Longrightarrow> fs_keeps f (f(q \<mapsto> n))"
  by (simp add: fs_keeps_def)

lemma walk_keeps: "walk f cur cs = Inr d \<Longrightarrow> fs_keeps f g \<Longrightarrow> walk g cur cs = Inr d"
  by (erule walk_mono) (simp add: fs_keeps_def)

lemma is_dir_keeps: "is_dir f p \<Longrightarrow> fs_keeps f g \<Longrightarrow> is_dir g p"
  unfolding is_dir_walk by (auto dest: walk_keeps)

lemma namei_keeps: "namei f p = Inr q \<Longrightarrow> fs_keeps f g \<Longrightarrow> namei g p = Inr q"
  by (auto simp: namei_def split: if_splits sum.splits dest: walk_keeps)

lemma path_exists_keeps: "path_exists f p \<Longrightarrow> fs_keeps f g \<Longrightarrow> path_exists g p"
  unfolding path_exists_iff by (metis fs_keeps_def namei_keeps)

lemma create_init_script_Some:
  assumes "create_init_script hdir w = (Some e, w')"
  shows "w' = w \<or>
         (\<exists>D. walk (fs w) [] hdir = Inr D \<and> can_write w (D @ [''init.sh'']) \<and>
              w' = w\<lparr>fs := (fs w)(D @ [''init.sh''] \<mapsto>
                           File init_script_content (kept_mode w (D @ [''init.sh''])))\<rparr>)"
proof -
  from assms have
    "write_text (hdir @ [''init.sh'']) init_script_content w = (Some e, w') \<or>
     (\<exists>w1. write_text (hdir @ [''init.sh'']) init_script_content w = (None, w1) \<and>
           os_chmod (hdir @ [''init.sh'']) 493 w1 = (Some e, w'))"
    by (auto simp: create_init_script_def Let_def and_then_Some)
  then show ?thesis
    by (auto simp: write_text_iff dest: write_text_Some os_chmod_Some)
qed

lemma create_init_script_keeps:
  "create_init_script hdir w = (r, w') \<Longrightarrow> fs_keeps (fs w) (fs w')"
  by (cases r)
     (auto simp: create_init_script_iff dest!: create_init_script_Some
           intro!: fs_keeps_upd dest: can_write_not_dir)

lemma create_harness_files_keeps:
  "create_harness_files n hdir d w = (r, w') \<Longrightarrow> fs_keeps (fs w) (fs w')"
proof -
  assume a: "create_harness_files n hdir d w = (r, w')"
  obtain r1 w1 where s1: "create_feature_list n hdir d w = (r1, w1)"
    by (cases "create_feature_list n hdir d w") auto
  have k1: "fs_keeps (fs w) (fs w1)"
    using s1 by (cases r1) (auto simp: create_feature_list_iff dest!: create_feature_list_Some
                                 intro!: fs_keeps_upd dest: can_write_not_dir)
  obtain r2 w2 where s2: "create_progress_file n hdir d w1 = (r2, w2)"
    by (cases "create_progress_file n hdir d w1") auto
  have k2: "fs_keeps (fs w1) (fs w2)"
    using s2 by (cases r2) (auto simp: create_progress_file_iff dest!: create_progress_file_Some
                                 intro!: fs_keeps_upd dest: can_write_not_dir)
  obtain r3 w3 where s3: "create_init_script hdir w2 = (r3, w3)"
    by (cases "create_init_script hdir w2") auto
  note k3 = create_init_script_keeps [OF s3]
  from a s1 s2 s3 have "w' = w1 \<or> w' = w2 \<or> w' = w3"
    by (auto simp: create_harness_files_def and_then_def split: option.splits)
  with k1 k2 k3 show ?thesis
    by (auto intro: fs_keeps_trans)
qed

subsection \<open>The blocked world\<close>

lemma blocked_world_simps:
  "now blocked_world = demo_clock" "ticks blocked_world = 0" "cwd blocked_world = [''home'']"
  by (simp_all add: blocked_world_def)

lemma blocked_resolve: "resolve blocked_world ''proj'' = [''home'', ''proj'']"
  by (simp add: resolve_def blocked_world_simps parts_def is_absolute_def step_def)

lemma blocked_dirs:
  "make_directories [''home'', ''proj''] [''home'', ''proj'', ''long_running'', ''feat'']
     blocked_world = (None, blocked_world)"
proof -
  have w: "walk (fs blocked_world) [] [''home'', ''proj'', ''long_running'', ''feat''] =
             Inr [''home'', ''proj'', ''long_running'', ''feat'']"
    by (simp add: blocked_world_def step_def)
  have "walk (fs blocked_world) [] [''home'', ''proj''] = Inr [''home'', ''proj'']"
    by (simp add: blocked_world_def step_def)
  then have "path_exists (fs blocked_world) [''home'', ''proj'']"
    by (intro is_dir_path_exists) (simp add: is_dir_walk)
  then show ?thesis
    by (simp add: make_directories_def and_then_def mkdir_parents_existing [OF w])
qed

lemma blocked_first:
  "fst (create_feature_list ''proj'' [''home'', ''proj'', ''long_running'', ''feat''] ''demo''
          blocked_start) = None"
  by code_simp

lemma blocked_fails:
  "fst (create_harness_files ''proj'' [''home'', ''proj'', ''long_running'', ''feat''] ''demo''
          blocked_start) = Some IsADirectoryError"
  by code_simp

subsection \<open>Locations and canonical paths\<close>

lemma walk_location: "walk f [] p = Inr D \<Longrightarrow> D = location p"
  by (simp add: location_def walk_lexical)


lemma demo_location:
  "location [''home'', ''proj'', ''long_running'', ''feat''] =
     [''home'', ''proj'', ''long_running'', ''feat'']"
  by (simp add: location_def step_def)



lemma step_canonical: "''..'' \<notin> set cur \<Longrightarrow> ''..'' \<notin> set (step cur c)"
  by (auto simp: step_def dest: in_set_butlastD)

lemma foldl_step_canonical: "''..'' \<notin> set cur \<Longrightarrow> ''..'' \<notin> set (foldl step cur cs)"
  by (induction cs arbitrary: cur) (auto simp: step_canonical)

lemma resolve_canonical: "''..'' \<notin> set (cwd w) \<Longrightarrow> ''..'' \<notin> set (resolve w a)"
  by (simp add: resolve_def foldl_step_canonical)

lemma step_plain: "c \<noteq> ''..'' \<Longrightarrow> step cur c = cur @ [c]"
  by (simp add: step_def)




subsection \<open>Making a chain of directories\<close>









subsection \<open>Well-formed filesystems\<close>






subsection \<open>A run on a missing project path\<close>





subsection \<open>The sample run again\<close>





subsection \<open>Where the feature name leads\<close>

lemma location_canonical: "''..'' \<notin> set p \<Longrightarrow> location p = p"
proof -
  have "''..'' \<notin> set p \<Longrightarrow> foldl step cur p = cur @ p" for cur
    by (induction p arbitrary: cur) (auto simp: step_plain)
  from this [of "[]"] show "''..'' \<notin> set p \<Longrightarrow> location p = p"
    by (simp add: location_def)
qed

lemma location_append: "location (p @ cs) = foldl step (location p) cs"
  by (simp add: location_def)

lemma harness_dir_empty: "harness_dir_of p [] = p @ [''long_running'']"
  by (simp add: harness_dir_of_def) (simp add: joinpath_def is_absolute_def parts_def)

lemma harness_dir_absolute: "harness_dir_of p (CHR ''/'' # s) = parts (CHR ''/'' # s)"
  by (simp add: harness_dir_of_def) (simp add: joinpath_def is_absolute_def)

lemma harness_dir_relative:
  "\<not> is_absolute f \<Longrightarrow> harness_dir_of p f = p @ [''long_running''] @ parts f"
  by (simp add: harness_dir_of_def) (simp add: joinpath_def)

lemma parts_dotdot: "parts ''..'' = [''..'']" "\<not> is_absolute ''..''"
  by (simp_all add: parts_def is_absolute_def)

subsection \<open>The sample run with a nested name\<close>

lemma nested_status: "fst (main (Namespace ''proj'' ''a/b'' ''demo'') demo_world) = 0"
  by code_simp

lemma nested_main: "main (Namespace ''proj'' ''a/b'' ''demo'') demo_world = (0, nested_after)"
  using nested_status by (simp add: nested_after_def prod_eq_iff)

subsection \<open>The conditional of the script\<close>



subsection \<open>When a run completes\<close>



section \<open>The claims\<close>





text \<open>
  C3. Two completed runs, whatever their arguments and the worlds they start in, leave the
  same text in \<^verbatim>\<open>init.sh\<close>, the fixed text of the script, with mode \<^verbatim>\<open>0o755\<close> (493).
\<close>

theorem init_script_fixed:
  assumes "main (Namespace a1 f1 d1) w1 = (0, w1')" and "main (Namespace a2 f2 d2) w2 = (0, w2')"
  shows "stat (fs w1') (joinpath (harness_dir_of (resolve w1 a1) f1) ''init.sh'') =
           Inr (File init_script_content 493) \<and>
         stat (fs w2') (joinpath (harness_dir_of (resolve w2 a2) f2) ''init.sh'') =
           Inr (File init_script_content 493)"
proof -
  have "stat (fs w') (joinpath (harness_dir_of (resolve w a) f) ''init.sh'') =
          Inr (File init_script_content 493)"
    if "main (Namespace a f d) w = (0, w')" for a f d w w'
  proof -
    from completed_run [OF that] obtain w1 D where
      D: "walk (fs w') [] (harness_dir_of (resolve w a) f) = Inr D" and
      f: "fs w' (D @ [''init.sh'']) = Some (File init_script_content 493)"
      by auto
    from stat_snoc [OF D _ f] show ?thesis by simp
  qed
  from this [OF assms(1)] this [OF assms(2)] show ?thesis ..
qed

text \<open>The same at the sample run.\<close>

theorem init_script_fixed_witness:
  "main (Namespace ''proj'' ''feat'' ''demo'') demo_world = (0, demo_after) \<and>
   stat (fs demo_after) [''home'', ''proj'', ''long_running'', ''feat'', ''init.sh''] =
     Inr (File init_script_content 493) \<and>
   stat (fs (snd (main (Namespace ''/srv/app'' ''x/y'' ''another'') demo_world)))
     [''srv'', ''app'', ''long_running'', ''x'', ''y'', ''init.sh''] =
     Inr (File init_script_content 493)"
proof -
  have r: "resolve demo_world ''/srv/app'' = [''srv'', ''app'']"
    by (simp add: resolve_def parts_def is_absolute_def step_def)
  have h: "harness_dir_of [''srv'', ''app''] ''x/y'' = [''srv'', ''app'', ''long_running'', ''x'', ''y'']"
    by (simp add: harness_dir_of_def joinpath_def parts_def is_absolute_def)
  from init_script_fixed [OF demo_main demo_main_other] demo_main show ?thesis
    by (simp add: demo_resolve demo_harness_dir r h)
qed



text \<open>
  C5. When the directories are made and one of the three file steps raises, the run
  ends there with status 1 and the world as it is at that point: nothing is undone. The harness
  directory and the project directory are still there, and each file written before the step
  that failed still holds what was written: \<^verbatim>\<open>feature_list.json\<close> when its step completed,
  and \<^verbatim>\<open>progress.txt\<close> when the first two steps completed.
\<close>

theorem failure_keeps_earlier_files:
  assumes dirs: "make_directories (resolve w a) (harness_dir_of (resolve w a) f) w = (None, w1)"
    and fails: "create_harness_files (path_name (resolve w a)) (harness_dir_of (resolve w a) f) d
                  (prints (opening_lines (path_name (resolve w a)) d) w1) = (Some e, w')"
  shows "main (Namespace a f d) w = (1, w') \<and>
     is_dir (fs w') (harness_dir_of (resolve w a) f) \<and> path_exists (fs w') (resolve w a) \<and>
     (fst (create_feature_list (path_name (resolve w a)) (harness_dir_of (resolve w a) f) d
             (prints (opening_lines (path_name (resolve w a)) d) w1)) = None \<longrightarrow>
        (\<exists>m. stat (fs w') (joinpath (harness_dir_of (resolve w a) f) ''feature_list.json'') =
               Inr (File (json_dump (feature_list (path_name (resolve w a)) d
                                       (now w (ticks w)) (now w (ticks w + 1)))) m))) \<and>
     (fst (create_feature_list (path_name (resolve w a)) (harness_dir_of (resolve w a) f) d
             (prints (opening_lines (path_name (resolve w a)) d) w1)) = None \<and>
      fst (create_progress_file (path_name (resolve w a)) (harness_dir_of (resolve w a) f) d
             (snd (create_feature_list (path_name (resolve w a))
                     (harness_dir_of (resolve w a) f) d
                     (prints (opening_lines (path_name (resolve w a)) d) w1)))) = None \<longrightarrow>
        (\<exists>m. stat (fs w') (joinpath (harness_dir_of (resolve w a) f) ''progress.txt'') =
               Inr (File (progress_content (path_name (resolve w a)) d
                            (now w (ticks w + 2)) (now w (ticks w + 3))) m)))"
proof -
  let ?p = "resolve w a" and ?h = "harness_dir_of (resolve w a) f"
  let ?n = "path_name (resolve w a)"
  let ?w0 = "prints (opening_lines ?n d) w1"
  have env: "same_env w w1"
    using make_directories_grows [OF dirs] by simp
  then have t: "ticks ?w0 = ticks w" "now ?w0 = now w"
    by (simp_all add: prints_eq same_env_def)
  have main: "main (Namespace a f d) w = (1, w')"
    using dirs fails by (simp add: main_def run_main_def Let_def and_then_def)
  have keeps: "fs_keeps (fs w1) (fs w')"
    using create_harness_files_keeps [OF fails] by (simp add: prints_eq)
  have d1: "is_dir (fs w') ?h" "path_exists (fs w') ?p"
    using make_directories_None [OF dirs] keeps
    by (auto intro: is_dir_keeps path_exists_keeps)
  have first: "\<exists>m. stat (fs w') (joinpath ?h ''feature_list.json'') =
                 Inr (File (json_dump (feature_list ?n d (now w (ticks w)) (now w (ticks w + 1)))) m)"
    if s1: "create_feature_list ?n ?h d ?w0 = (None, w2)" for w2
  proof -
    from s1 obtain D where D: "walk (fs ?w0) [] ?h = Inr D"
      and c: "can_write ?w0 (D @ [''feature_list.json''])"
      and w2: "fs w2 = (fs ?w0)(D @ [''feature_list.json''] \<mapsto>
                 File (json_dump (feature_list ?n d (now w (ticks w)) (now w (ticks w + 1))))
                      (kept_mode ?w0 (D @ [''feature_list.json''])))"
      unfolding create_feature_list_iff by (auto simp: t)
    have D2: "walk (fs w2) [] ?h = Inr D"
      using D c by (simp add: w2 walk_upd can_write_not_dir)
    from fails s1 have rest:
      "and_then (create_progress_file ?n ?h d w2) (create_init_script ?h) = (Some e, w')"
      by (simp add: create_harness_files_def and_then_def)
    obtain r2 w3 where s2: "create_progress_file ?n ?h d w2 = (r2, w3)"
      by (cases "create_progress_file ?n ?h d w2") auto
    have f3: "fs w3 (D @ [''feature_list.json'']) = fs w2 (D @ [''feature_list.json''])"
      and D3: "walk (fs w3) [] ?h = Inr D"
    proof -
      show "fs w3 (D @ [''feature_list.json'']) = fs w2 (D @ [''feature_list.json''])"
        using s2 D2 by (cases r2) (auto simp: create_progress_file_iff
                                        dest!: create_progress_file_Some)
      show "walk (fs w3) [] ?h = Inr D"
        using s2 D2 by (cases r2) (auto simp: create_progress_file_iff walk_upd can_write_not_dir
                                        dest!: create_progress_file_Some)
    qed
    have "fs w' (D @ [''feature_list.json'']) = fs w2 (D @ [''feature_list.json'']) \<and>
          walk (fs w') [] ?h = Inr D"
    proof (cases r2)
      case (Some e2)
      with rest s2 have "w' = w3" by (simp add: and_then_def)
      with f3 D3 show ?thesis by simp
    next
      case None
      with rest s2 have "create_init_script ?h w3 = (Some e, w')" by (simp add: and_then_def)
      from create_init_script_Some [OF this] f3 D3 show ?thesis
        by (auto simp: walk_upd can_write_not_dir)
    qed
    with stat_snoc [of "fs w'" ?h D "''feature_list.json''"] show ?thesis
      by (simp add: w2)
  qed
  have second: "\<exists>m. stat (fs w') (joinpath ?h ''progress.txt'') =
                 Inr (File (progress_content ?n d (now w (ticks w + 2)) (now w (ticks w + 3))) m)"
    if s1: "create_feature_list ?n ?h d ?w0 = (None, w2)"
      and s2: "create_progress_file ?n ?h d w2 = (None, w3)" for w2 w3
  proof -
    from s1 have t2: "ticks w2 = ticks w + 2" "now w2 = now w"
      unfolding create_feature_list_iff by (auto simp: t)
    from s2 obtain D where D: "walk (fs w2) [] ?h = Inr D"
      and c: "can_write w2 (D @ [''progress.txt''])"
      and w3: "fs w3 = (fs w2)(D @ [''progress.txt''] \<mapsto>
                 File (progress_content ?n d (now w (ticks w + 2)) (now w (ticks w + 3)))
                      (kept_mode w2 (D @ [''progress.txt''])))"
      unfolding create_progress_file_iff by (auto simp: t2 numeral_3_eq_3)
    have D3: "walk (fs w3) [] ?h = Inr D"
      using D c by (simp add: w3 walk_upd can_write_not_dir)
    from fails s1 s2 have "create_init_script ?h w3 = (Some e, w')"
      by (simp add: create_harness_files_def and_then_def)
    from create_init_script_Some [OF this] D3
    have "fs w' (D @ [''progress.txt'']) = fs w3 (D @ [''progress.txt'']) \<and>
          walk (fs w') [] ?h = Inr D"
      by (auto simp: walk_upd can_write_not_dir)
    with stat_snoc [of "fs w'" ?h D "''progress.txt''"] show ?thesis
      by (simp add: w3)
  qed
  show ?thesis
    using main d1 first second
    by (metis prod.collapse)
qed

text \<open>
  The same in a world where \<^verbatim>\<open>progress.txt\<close> is a directory: the second step raises
  \<^verbatim>\<open>IsADirectoryError\<close>, and \<^verbatim>\<open>feature_list.json\<close> stays as the first step wrote it.
\<close>

theorem failure_keeps_earlier_files_witness:
  "make_directories [''home'', ''proj''] [''home'', ''proj'', ''long_running'', ''feat'']
     blocked_world = (None, blocked_world) \<and>
   fst (create_harness_files ''proj'' [''home'', ''proj'', ''long_running'', ''feat'']
          ''demo'' blocked_start) = Some IsADirectoryError \<and>
   fst (create_feature_list ''proj'' [''home'', ''proj'', ''long_running'', ''feat''] ''demo''
          blocked_start) = None \<and>
   main (Namespace ''proj'' ''feat'' ''demo'') blocked_world =
     (1, snd (create_harness_files ''proj'' [''home'', ''proj'', ''long_running'', ''feat'']
                ''demo'' blocked_start)) \<and>
   (\<exists>m. stat (fs (snd (create_harness_files ''proj''
                         [''home'', ''proj'', ''long_running'', ''feat''] ''demo'' blocked_start)))
            [''home'', ''proj'', ''long_running'', ''feat'', ''feature_list.json''] =
          Inr (File (json_dump (feature_list ''proj'' ''demo'' (demo_clock 0) (demo_clock 1))) m))"
proof -
  have f: "create_harness_files (path_name (resolve blocked_world ''proj''))
             (harness_dir_of (resolve blocked_world ''proj'') ''feat'') ''demo''
             (prints (opening_lines (path_name (resolve blocked_world ''proj'')) ''demo'')
                blocked_world) =
           (Some IsADirectoryError,
            snd (create_harness_files ''proj'' [''home'', ''proj'', ''long_running'', ''feat'']
                   ''demo'' blocked_start))"
    using blocked_fails
    by (simp add: blocked_resolve demo_harness_dir path_name_def blocked_start_def prod_eq_iff)
  have d: "make_directories (resolve blocked_world ''proj'')
             (harness_dir_of (resolve blocked_world ''proj'') ''feat'') blocked_world =
           (None, blocked_world)"
    by (simp add: blocked_resolve demo_harness_dir blocked_dirs)
  from failure_keeps_earlier_files [OF d f] blocked_first blocked_fails blocked_dirs
  show ?thesis
    by (simp add: blocked_resolve demo_harness_dir path_name_def blocked_start_def
                  blocked_world_simps)
qed





text \<open>
  C8, as amended. Each timestamp of the generated files is a reading of the clock of its
  own, taken when the field is rendered: \<open>project.created\<close> and
  \<open>metadata.last_updated\<close> are the first and the second reading of the run in ISO format,
  the \<open>Created\<close> and \<open>Session\<close> lines of \<^verbatim>\<open>progress.txt\<close> the third and the fourth,
  printed to the minute.
\<close>

theorem timestamps_are_successive_readings:
  assumes "main (Namespace a f d) w = (0, w')"
  shows "\<exists>m1 m2.
     stat (fs w') (joinpath (harness_dir_of (resolve w a) f) ''feature_list.json'') =
       Inr (File (json_dump (feature_list (path_name (resolve w a)) d
                               (now w (ticks w)) (now w (ticks w + 1)))) m1) \<and>
     stat (fs w') (joinpath (harness_dir_of (resolve w a) f) ''progress.txt'') =
       Inr (File (progress_content (path_name (resolve w a)) d
                    (now w (ticks w + 2)) (now w (ticks w + 3))) m2) \<and>
     Option.bind (jget ''project'' (feature_list (path_name (resolve w a)) d
                                      (now w (ticks w)) (now w (ticks w + 1))))
       (jget ''created'') = Some (JStr (isoformat (now w (ticks w)))) \<and>
     Option.bind (jget ''metadata'' (feature_list (path_name (resolve w a)) d
                                      (now w (ticks w)) (now w (ticks w + 1))))
       (jget ''last_updated'') = Some (JStr (isoformat (now w (ticks w + 1)))) \<and>
     progress_lines (path_name (resolve w a)) d (now w (ticks w + 2)) (now w (ticks w + 3)) ! 4 =
       ''**Created:** '' @ strftime_minute (now w (ticks w + 2)) \<and>
     progress_lines (path_name (resolve w a)) d (now w (ticks w + 2)) (now w (ticks w + 3)) ! 8 =
       ''## Session: '' @ strftime_minute (now w (ticks w + 3)) @ '' (Initialization)''"
proof -
  from completed_run [OF assms] obtain w1 D where
    D: "walk (fs w') [] (harness_dir_of (resolve w a) f) = Inr D" and
    f: "fs w' (D @ [''feature_list.json'']) =
          Some (File (json_dump (feature_list (path_name (resolve w a)) d
                               (now w (ticks w)) (now w (ticks w + 1))))
                 (kept_mode w1 (D @ [''feature_list.json''])))" and
    p: "fs w' (D @ [''progress.txt'']) =
          Some (File (progress_content (path_name (resolve w a)) d
                        (now w (ticks w + 2)) (now w (ticks w + 3)))
                 (kept_mode w1 (D @ [''progress.txt''])))"
    by auto
  have "progress_lines n d t3 t4 ! 4 = ''**Created:** '' @ strftime_minute t3"
       "progress_lines n d t3 t4 ! 8 = ''## Session: '' @ strftime_minute t4 @ '' (Initialization)''"
    for n t3 t4
    by (simp_all add: progress_lines_def)
  with stat_snoc [OF D _ f] stat_snoc [OF D _ p] show ?thesis
    by (simp add: feature_list_def)
qed

text \<open>The same at the sample run.\<close>

theorem timestamps_are_successive_readings_witness:
  "main (Namespace ''proj'' ''feat'' ''demo'') demo_world = (0, demo_after) \<and>
   (\<exists>m1 m2.
     stat (fs demo_after) [''home'', ''proj'', ''long_running'', ''feat'', ''feature_list.json''] =
       Inr (File (json_dump (feature_list ''proj'' ''demo'' (demo_clock 0) (demo_clock 1))) m1) \<and>
     stat (fs demo_after) [''home'', ''proj'', ''long_running'', ''feat'', ''progress.txt''] =
       Inr (File (progress_content ''proj'' ''demo'' (demo_clock 2) (demo_clock 3)) m2))"
  using timestamps_are_successive_readings [OF demo_main] demo_main
  by (auto simp: demo_resolve demo_harness_dir path_name_def demo_world_simps numeral_2_eq_2
                 numeral_3_eq_3)

text \<open>
  C8, as stated, fails: in the sample run, where the clock advances between two readings,
  \<open>project.created\<close> and \<open>metadata.last_updated\<close> of the one file differ.
\<close>

theorem timestamps_differ_in_one_run:
  "stat (fs demo_after) [''home'', ''proj'', ''long_running'', ''feat'', ''feature_list.json''] =
     Inr (File (json_dump (feature_list ''proj'' ''demo'' (demo_clock 0) (demo_clock 1))) 420) \<and>
   Option.bind (jget ''project'' (feature_list ''proj'' ''demo'' (demo_clock 0) (demo_clock 1)))
     (jget ''created'') = Some (JStr ''2026-11-04T09:05:07'') \<and>
   Option.bind (jget ''metadata'' (feature_list ''proj'' ''demo'' (demo_clock 0) (demo_clock 1)))
     (jget ''last_updated'') = Some (JStr ''2026-11-04T09:05:07.000001'') \<and>
   Option.bind (jget ''project'' (feature_list ''proj'' ''demo'' (demo_clock 0) (demo_clock 1)))
     (jget ''created'') \<noteq>
   Option.bind (jget ''metadata'' (feature_list ''proj'' ''demo'' (demo_clock 0) (demo_clock 1)))
     (jget ''last_updated'')"
  by code_simp

text \<open>
  C9, as amended. The text of \<^verbatim>\<open>progress.txt\<close> ends with the fixed notes for future
  sessions, whatever the project name, the description and the clock readings are, and
  the checklist in them has six numbered steps, in this order.
\<close>

theorem progress_checklist_six_steps:
  "(\<exists>head. progress_content project_name description t_created t_session =
             head @ unlines progress_notes) \<and>
   numbered_steps progress_notes =
     [''1. Read this file to understand recent progress'',
      ''2. Check git log for commit history'',
      ''3. Review feature_list.json for next task'',
      ''4. Run ./init.sh to start development environment'',
      ''5. Pick ONE feature and implement it'',
      ''6. Update this file before ending session''] \<and>
   length (numbered_steps progress_notes) = 6"
proof -
  have "progress_content project_name description t_created t_session =
        unlines (take 26 (progress_lines project_name description t_created t_session)) @
        unlines progress_notes"
    by (simp add: progress_content_def progress_lines_def unlines_append [symmetric])
  moreover have "numbered_steps progress_notes =
     [''1. Read this file to understand recent progress'',
      ''2. Check git log for commit history'',
      ''3. Review feature_list.json for next task'',
      ''4. Run ./init.sh to start development environment'',
      ''5. Pick ONE feature and implement it'',
      ''6. Update this file before ending session'']"
    by (simp add: numbered_steps_def progress_notes_def)
  ultimately show ?thesis by auto
qed

text \<open>C9, as stated: the checklist does not have five steps.\<close>

theorem progress_checklist_not_five_steps:
  "length (numbered_steps progress_notes) \<noteq> 5"
  by (simp add: numbered_steps_def progress_notes_def)

text \<open>
  C10, as amended. The feature name is joined to \<^verbatim>\<open><project_path>/long_running\<close> as it
  is, and a completed run leaves the three files at the location the joined path leads to.
  For the empty name that location is \<^verbatim>\<open>long_running\<close> itself; for \<^verbatim>\<open>..\<close> it is the project
  path; for a name that starts with \<^verbatim>\<open>/\<close> it is the location of that absolute path,
  whatever the project path is; and for a relative name with no \<^verbatim>\<open>..\<close> part, with path
  separators or without, it is \<^verbatim>\<open><project_path>/long_running/<parts of the name>\<close>.
\<close>

theorem harness_location_follows_feature_name:
  assumes "main (Namespace a f d) w = (0, w')" and "''..'' \<notin> set (cwd w)"
  shows "(\<exists>m1 m2.
       fs w' (location (harness_dir_of (resolve w a) f) @ [''feature_list.json'']) =
         Some (File (json_dump (feature_list (path_name (resolve w a)) d
                                  (now w (ticks w)) (now w (ticks w + 1)))) m1) \<and>
       fs w' (location (harness_dir_of (resolve w a) f) @ [''progress.txt'']) =
         Some (File (progress_content (path_name (resolve w a)) d
                       (now w (ticks w + 2)) (now w (ticks w + 3))) m2) \<and>
       fs w' (location (harness_dir_of (resolve w a) f) @ [''init.sh'']) =
         Some (File init_script_content 493)) \<and>
     location (harness_dir_of (resolve w a) []) = resolve w a @ [''long_running''] \<and>
     location (harness_dir_of (resolve w a) ''..'') = resolve w a \<and>
     (\<forall>s. location (harness_dir_of (resolve w a) (CHR ''/'' # s)) = location (parts (CHR ''/'' # s))) \<and>
     (\<not> is_absolute f \<and> ''..'' \<notin> set (parts f) \<longrightarrow>
        location (harness_dir_of (resolve w a) f) = resolve w a @ [''long_running''] @ parts f)"
proof -
  let ?p = "resolve w a"
  from completed_run [OF assms(1)] obtain w1 D where
    D: "walk (fs w') [] (harness_dir_of ?p f) = Inr D" and
    fs': "fs w' = (fs w1)
       (D @ [''feature_list.json''] \<mapsto>
          File (json_dump (feature_list (path_name ?p) d (now w (ticks w)) (now w (ticks w + 1))))
               (kept_mode w1 (D @ [''feature_list.json''])),
        D @ [''progress.txt''] \<mapsto>
          File (progress_content (path_name ?p) d (now w (ticks w + 2)) (now w (ticks w + 3)))
               (kept_mode w1 (D @ [''progress.txt''])),
        D @ [''init.sh''] \<mapsto> File init_script_content 493)"
    by auto
  have L: "location (harness_dir_of ?p f) = D" using walk_location [OF D] by simp
  have files: "\<exists>m1 m2.
       fs w' (location (harness_dir_of ?p f) @ [''feature_list.json'']) =
         Some (File (json_dump (feature_list (path_name ?p) d
                                  (now w (ticks w)) (now w (ticks w + 1)))) m1) \<and>
       fs w' (location (harness_dir_of ?p f) @ [''progress.txt'']) =
         Some (File (progress_content (path_name ?p) d
                       (now w (ticks w + 2)) (now w (ticks w + 3))) m2) \<and>
       fs w' (location (harness_dir_of ?p f) @ [''init.sh'']) =
         Some (File init_script_content 493)"
    unfolding L by (simp add: fs')
  have cp: "''..'' \<notin> set ?p" using assms(2) by (rule resolve_canonical)
  have lp: "location ?p = ?p" using cp by (rule location_canonical)
  have e: "location (harness_dir_of ?p []) = ?p @ [''long_running'']"
    using cp by (simp add: harness_dir_empty location_canonical)
  have u: "location (harness_dir_of ?p ''..'') = ?p"
    by (simp add: harness_dir_relative parts_dotdot location_append lp step_def)
  have r: "location (harness_dir_of ?p f) = ?p @ [''long_running''] @ parts f"
    if "\<not> is_absolute f" "''..'' \<notin> set (parts f)"
    using that cp by (simp add: harness_dir_relative location_canonical)
  show ?thesis
    using files e u r by (simp add: harness_dir_absolute)
qed

text \<open>
  The same at the sample run, whose feature name is relative and has no \<^verbatim>\<open>..\<close> part.
\<close>

theorem harness_location_follows_feature_name_witness:
  "main (Namespace ''proj'' ''feat'' ''demo'') demo_world = (0, demo_after) \<and>
   ''..'' \<notin> set (cwd demo_world) \<and>
   \<not> is_absolute ''feat'' \<and> ''..'' \<notin> set (parts ''feat'') \<and>
   fs demo_after [''home'', ''proj'', ''long_running'', ''feat'', ''init.sh''] =
     Some (File init_script_content 493) \<and>
   location (harness_dir_of [''home'', ''proj''] ''feat'') =
     [''home'', ''proj''] @ [''long_running''] @ parts ''feat''"
proof -
  have c: "''..'' \<notin> set (cwd demo_world)" by (simp add: demo_world_simps)
  have p: "\<not> is_absolute ''feat''" "''..'' \<notin> set (parts ''feat'')" "parts ''feat'' = [''feat'']"
    by (simp_all add: is_absolute_def parts_def)
  from harness_location_follows_feature_name [OF demo_main c] p demo_main c show ?thesis
    by (simp add: demo_resolve demo_harness_dir demo_location)
qed

text \<open>
  C10, as stated, fails at the feature name \<^verbatim>\<open>a/b\<close>, which contains a path separator:
  the run completes and the three files are in \<^verbatim>\<open>/home/proj/long_running/a/b\<close>, inside
  \<^verbatim>\<open>/home/proj/long_running\<close>.
\<close>

theorem separators_stay_inside_long_running:
  "main (Namespace ''proj'' ''a/b'' ''demo'') demo_world = (0, nested_after) \<and>
   map_option content
     (fs nested_after [''home'', ''proj'', ''long_running'', ''a'', ''b'', ''feature_list.json'']) =
     Some (json_dump (feature_list ''proj'' ''demo'' (demo_clock 0) (demo_clock 1))) \<and>
   map_option content
     (fs nested_after [''home'', ''proj'', ''long_running'', ''a'', ''b'', ''progress.txt'']) =
     Some (progress_content ''proj'' ''demo'' (demo_clock 2) (demo_clock 3)) \<and>
   fs nested_after [''home'', ''proj'', ''long_running'', ''a'', ''b'', ''init.sh''] =
     Some (File init_script_content 493) \<and>
   prefix [''home'', ''proj'', ''long_running'']
     [''home'', ''proj'', ''long_running'', ''a'', ''b'']"
proof -
  have h: "harness_dir_of [''home'', ''proj''] ''a/b'' =
             [''home'', ''proj'', ''long_running'', ''a'', ''b'']"
    by (simp add: harness_dir_of_def) (simp add: joinpath_def parts_def is_absolute_def)
  from completed_run [OF nested_main] obtain w1 D where
    D: "walk (fs nested_after) [] (harness_dir_of (resolve demo_world ''proj'') ''a/b'') = Inr D" and
    fs': "fs nested_after = (fs w1)
       (D @ [''feature_list.json''] \<mapsto>
          File (json_dump (feature_list (path_name (resolve demo_world ''proj'')) ''demo''
                  (now demo_world (ticks demo_world)) (now demo_world (ticks demo_world + 1))))
               (kept_mode w1 (D @ [''feature_list.json''])),
        D @ [''progress.txt''] \<mapsto>
          File (progress_content (path_name (resolve demo_world ''proj'')) ''demo''
                  (now demo_world (ticks demo_world + 2)) (now demo_world (ticks demo_world + 3)))
               (kept_mode w1 (D @ [''progress.txt''])),
        D @ [''init.sh''] \<mapsto> File init_script_content 493)"
    by blast
  have "D = [''home'', ''proj'', ''long_running'', ''a'', ''b'']"
    using walk_location [OF D] by (simp add: demo_resolve h location_def step_def)
  with fs' nested_main show ?thesis
    by (simp add: demo_resolve path_name_def demo_world_simps numeral_2_eq_2)
qed

end
